theory Spec2Isabelle
  imports Main "HOL-Library.Sublist"
begin

section \<open>JavaScript values, objects and the heap\<close>

text \<open>
  The error-handling pipeline of \<^verbatim>\<open>ErrorHandlingIllustration.js\<close> inspects values of
  arbitrary shape, so the model starts from untyped JavaScript values. Objects live in a
  heap and are referred to by address: the middleware works on a shallow copy of the error
  it receives, and what it may or may not change is a statement about that heap.

  Numbers are modelled by their integer values (\<^verbatim>\<open>NaN\<close>, infinities and fractions are
  outside the model); strings are byte lists.
\<close>

type_synonym addr = nat

datatype jsval =
    JUndefined
  | JNull
  | JBool bool
  | JNum int
  | JStr string
  | JRef addr

text \<open>
  A property as the code can observe it: its key, its value, and whether it is an own
  enumerable property. \<^verbatim>\<open>Object.assign\<close>, \<^verbatim>\<open>Object.keys\<close> and \<^verbatim>\<open>Object.values\<close> see only the
  own enumerable properties; a plain read \<^verbatim>\<open>o.k\<close> also sees the others (non-enumerable ones
  such as the \<^verbatim>\<open>message\<close> of an \<^verbatim>\<open>Error\<close>, and inherited ones such as its \<^verbatim>\<open>name\<close>).
  Properties are data properties: accessors and proxies are outside the model.
\<close>

datatype property = Prop (pkey: string) (pval: jsval) (own_enumerable: bool)

text \<open>
  An object is its property list, in the order in which JavaScript enumerates the keys,
  together with the string that converting the object to a string yields (through its
  \<^verbatim>\<open>toString\<close>), or \<open>None\<close> when that conversion throws.
\<close>

datatype jsobj = Obj (props: "property list") (str_conv: "string option")

type_synonym heap = "jsobj list"

datatype exn = TypeError | Raised jsval

datatype 'a result = Returned 'a | Threw exn

datatype response = Response (status: jsval) (body: "(string \<times> jsval) list")

text \<open>What \<^verbatim>\<open>console.error(label, v)\<close> prints is fixed by \<open>v\<close> and the heap at that moment.\<close>

datatype log_entry = LogError string jsval heap

record world =
  heap :: heap
  responses :: "response list"
  console :: "log_entry list"
  unhandled :: "jsval list"
  fallthrough :: "exn list"

record req = url :: string  http_verb :: string

type_synonym 'a js = "world \<Rightarrow> 'a result \<times> world"

definition js_return :: "'a \<Rightarrow> 'a js" where
  "js_return a w = (Returned a, w)"

definition js_bind :: "'a js \<Rightarrow> ('a \<Rightarrow> 'b js) \<Rightarrow> 'b js" where
  "js_bind m f w = (case m w of (Returned a, w') \<Rightarrow> f a w' | (Threw x, w') \<Rightarrow> (Threw x, w'))"

text \<open>A computation that only reads the heap.\<close>

definition js_read :: "(heap \<Rightarrow> 'a result) \<Rightarrow> 'a js" where
  "js_read f w = (f (heap w), w)"

subsection \<open>Primitive operations of the language\<close>

definition truthy :: "jsval \<Rightarrow> bool" where
  "truthy v = (case v of
       JUndefined \<Rightarrow> False
     | JNull \<Rightarrow> False
     | JBool b \<Rightarrow> b
     | JNum n \<Rightarrow> n \<noteq> 0
     | JStr s \<Rightarrow> s \<noteq> []
     | JRef a \<Rightarrow> True)"

text \<open>\<^verbatim>\<open>a || b\<close>\<close>

definition js_or :: "jsval \<Rightarrow> jsval \<Rightarrow> jsval" where
  "js_or a b = (if truthy a then a else b)"

definition nullish :: "jsval \<Rightarrow> bool" where
  "nullish v = (v = JUndefined \<or> v = JNull)"

text \<open>
  Reading the object at an address. An address beyond the heap belongs to no object; it
  reads as an object without properties whose string conversion throws. The theorems below
  are about references to allocated objects (\<open>allocated\<close>).
\<close>

definition deref :: "heap \<Rightarrow> addr \<Rightarrow> jsobj" where
  "deref h a = (if a < length h then h ! a else Obj [] None)"

definition allocated :: "heap \<Rightarrow> jsval \<Rightarrow> bool" where
  "allocated h v = (case v of JRef a \<Rightarrow> a < length h | _ \<Rightarrow> True)"

fun lookup_prop :: "string \<Rightarrow> property list \<Rightarrow> jsval" where
  "lookup_prop k [] = JUndefined"
| "lookup_prop k (p # ps) = (if pkey p = k then pval p else lookup_prop k ps)"

text \<open>
  \<^verbatim>\<open>v.k\<close>: a \<^verbatim>\<open>TypeError\<close> on \<^verbatim>\<open>undefined\<close> and \<^verbatim>\<open>null\<close>. On the other primitives the
  property names this program reads (\<^verbatim>\<open>name\<close>, \<^verbatim>\<open>message\<close>, \<^verbatim>\<open>code\<close>, \<^verbatim>\<open>errors\<close>, \<^verbatim>\<open>keyValue\<close>,
  \<^verbatim>\<open>statusCode\<close>) are not defined, and the read gives \<^verbatim>\<open>undefined\<close>.
\<close>

definition get :: "heap \<Rightarrow> jsval \<Rightarrow> string \<Rightarrow> jsval result" where
  "get h v k = (case v of
       JUndefined \<Rightarrow> Threw TypeError
     | JNull \<Rightarrow> Threw TypeError
     | JRef a \<Rightarrow> Returned (lookup_prop k (props (deref h a)))
     | _ \<Rightarrow> Returned JUndefined)"

definition digit_char :: "nat \<Rightarrow> char" where
  "digit_char d = ''0123456789'' ! (d mod 10)"

fun show_nat :: "nat \<Rightarrow> string" where
  "show_nat n = (if n < 10 then [digit_char n] else show_nat (n div 10) @ [digit_char n])"

declare show_nat.simps [simp del]

definition show_int :: "int \<Rightarrow> string" where
  "show_int i = (if i < 0 then CHR ''-'' # show_nat (nat (- i)) else show_nat (nat i))"

text \<open>The index properties of a string primitive: \<^verbatim>\<open>'ab'\<close> has \<^verbatim>\<open>{0: 'a', 1: 'b'}\<close>.\<close>

fun index_props :: "nat \<Rightarrow> string \<Rightarrow> property list" where
  "index_props i [] = []"
| "index_props i (c # cs) = Prop (show_nat i) (JStr [c]) True # index_props (Suc i) cs"

text \<open>The own enumerable properties of a value that is not \<^verbatim>\<open>undefined\<close> or \<^verbatim>\<open>null\<close>.\<close>

definition own_enum_props :: "heap \<Rightarrow> jsval \<Rightarrow> property list" where
  "own_enum_props h v = (case v of
       JRef a \<Rightarrow> filter own_enumerable (props (deref h a))
     | JStr s \<Rightarrow> index_props 0 s
     | _ \<Rightarrow> [])"

definition Object_keys :: "heap \<Rightarrow> jsval \<Rightarrow> string list result" where
  "Object_keys h v =
     (if nullish v then Threw TypeError else Returned (map pkey (own_enum_props h v)))"

definition Object_values :: "heap \<Rightarrow> jsval \<Rightarrow> jsval list result" where
  "Object_values h v =
     (if nullish v then Threw TypeError else Returned (map pval (own_enum_props h v)))"

text \<open>\<^verbatim>\<open>ToString\<close>, as \<^verbatim>\<open>Array.prototype.join\<close> and template literals apply it.\<close>

definition to_string :: "heap \<Rightarrow> jsval \<Rightarrow> string result" where
  "to_string h v = (case v of
       JUndefined \<Rightarrow> Returned ''undefined''
     | JNull \<Rightarrow> Returned ''null''
     | JBool b \<Rightarrow> Returned (if b then ''true'' else ''false'')
     | JNum n \<Rightarrow> Returned (show_int n)
     | JStr s \<Rightarrow> Returned s
     | JRef a \<Rightarrow> (case str_conv (deref h a) of None \<Rightarrow> Threw TypeError | Some s \<Rightarrow> Returned s))"

text \<open>
  \<^verbatim>\<open>xs.map(f)\<close> for a callback that may throw: the elements are visited from left to right
  and the first exception ends the loop. The arrays that \<^verbatim>\<open>Object.values\<close>,
  \<^verbatim>\<open>Object.keys\<close> and \<^verbatim>\<open>map\<close> create are temporaries that nothing else refers to; the
  model keeps them as lists and does not allocate them.
\<close>

fun Array_map :: "('a \<Rightarrow> 'b result) \<Rightarrow> 'a list \<Rightarrow> 'b list result" where
  "Array_map f [] = Returned []"
| "Array_map f (x # xs) =
     (case f x of
        Threw e \<Rightarrow> Threw e
      | Returned y \<Rightarrow> (case Array_map f xs of Threw e \<Rightarrow> Threw e | Returned ys \<Rightarrow> Returned (y # ys)))"

fun intercalate :: "string \<Rightarrow> string list \<Rightarrow> string" where
  "intercalate sep [] = []"
| "intercalate sep [x] = x"
| "intercalate sep (x # y # ys) = x @ sep @ intercalate sep (y # ys)"

text \<open>\<^verbatim>\<open>xs.join(sep)\<close>: \<^verbatim>\<open>undefined\<close> and \<^verbatim>\<open>null\<close> elements become the empty string.\<close>

definition join_element :: "heap \<Rightarrow> jsval \<Rightarrow> string result" where
  "join_element h v = (if nullish v then Returned [] else to_string h v)"

definition Array_join :: "heap \<Rightarrow> jsval list \<Rightarrow> string \<Rightarrow> string result" where
  "Array_join h xs sep =
     (case Array_map (join_element h) xs of
        Threw e \<Rightarrow> Threw e
      | Returned ss \<Rightarrow> Returned (intercalate sep ss))"

subsection \<open>Operations that change the world\<close>

definition alloc :: "jsobj \<Rightarrow> jsval js" where
  "alloc obj w = (Returned (JRef (length (heap w))), w\<lparr>heap := heap w @ [obj]\<rparr>)"

text \<open>
  \<^verbatim>\<open>Object.assign({}, src)\<close>: a new plain object with the own enumerable properties of
  \<open>src\<close>, all of them enumerable in the copy; \<^verbatim>\<open>undefined\<close> and \<^verbatim>\<open>null\<close> sources are
  skipped. The property values are copied as they are, so nested objects are shared.
\<close>

definition Object_assign_empty :: "jsval \<Rightarrow> jsval js" where
  "Object_assign_empty src w =
     alloc (Obj (map (\<lambda>p. Prop (pkey p) (pval p) True) (own_enum_props (heap w) src))
                (Some ''[object Object]'')) w"

text \<open>\<^verbatim>\<open>o.k = v\<close> on the property list: an existing property keeps its place.\<close>

fun set_prop :: "string \<Rightarrow> jsval \<Rightarrow> property list \<Rightarrow> property list" where
  "set_prop k v [] = [Prop k v True]"
| "set_prop k v (p # ps) =
     (if pkey p = k then Prop k v (own_enumerable p) # ps else p # set_prop k v ps)"

text \<open>
  \<^verbatim>\<open>target.k = v\<close>: a \<^verbatim>\<open>TypeError\<close> on \<^verbatim>\<open>undefined\<close> and \<^verbatim>\<open>null\<close>, ignored on the other
  primitives (the file is not in strict mode).
\<close>

definition property_set :: "jsval \<Rightarrow> string \<Rightarrow> jsval \<Rightarrow> unit js" where
  "property_set target k v w = (case target of
       JUndefined \<Rightarrow> (Threw TypeError, w)
     | JNull \<Rightarrow> (Threw TypeError, w)
     | JRef a \<Rightarrow>
         (if a < length (heap w)
          then (Returned (), w\<lparr>heap := (heap w)[a := Obj (set_prop k v (props (heap w ! a)))
                                                       (str_conv (heap w ! a))]\<rparr>)
          else (Returned (), w))
     | _ \<Rightarrow> (Returned (), w))"

definition console_error :: "string \<Rightarrow> jsval \<Rightarrow> unit js" where
  "console_error label v w = (Returned (), w\<lparr>console := console w @ [LogError label v (heap w)]\<rparr>)"

text \<open>\<^verbatim>\<open>res.status(code).json(obj)\<close>: one response written to the response sink.\<close>

definition res_status_json :: "jsval \<Rightarrow> (string \<times> jsval) list \<Rightarrow> unit js" where
  "res_status_json code obj w = (Returned (), w\<lparr>responses := responses w @ [Response code obj]\<rparr>)"

section \<open>The Application Error type\<close>

text \<open>
  Modelled from the spec: \<^verbatim>\<open>utils/AppError.js\<close> is required by the program and is not
  among its source files. The spec describes it as a constructor taking a message string
  and an integer status code and producing an Application Error with attributes
  \<^verbatim>\<open>message\<close>, \<^verbatim>\<open>statusCode\<close> and \<^verbatim>\<open>isOperational = true\<close>, with no other behaviour.
  The attributes are own properties of the new object; \<^verbatim>\<open>message\<close> is not enumerable, as
  the comment at the shallow copy in the middleware says of error messages.
\<close>

definition AppError_obj :: "string \<Rightarrow> int \<Rightarrow> jsobj" where
  "AppError_obj message statusCode =
     Obj [Prop ''message'' (JStr message) False,
          Prop ''statusCode'' (JNum statusCode) True,
          Prop ''isOperational'' (JBool True) True]
         (Some (if message = [] then ''Error'' else ''Error: '' @ message))"

text \<open>
  Modelled from the spec: the constructor call \<^verbatim>\<open>new AppError(message, statusCode)\<close> of the
  same missing file, which allocates that object and has no other effect.
\<close>

definition new_AppError :: "string \<Rightarrow> int \<Rightarrow> jsval js" where
  "new_AppError message statusCode = alloc (AppError_obj message statusCode)"

section \<open>The centralized error-handling middleware\<close>

definition error_label :: string where
  "error_label = ''ERROR '' @ [CHR 0xF0, CHR 0x9F, CHR 0x92, CHR 0xA5]"

text \<open>
  Lines 113 to 117: the shallow copy, the message copied by hand, the original logged.
\<close>

definition copy_and_log :: "jsval \<Rightarrow> jsval js" where
  "copy_and_log err =
     js_bind (Object_assign_empty err) (\<lambda>error.
     js_bind (js_read (\<lambda>h. get h err ''message'')) (\<lambda>m.
     js_bind (property_set error ''message'' m) (\<lambda>_.
     js_bind (console_error error_label err) (\<lambda>_.
     js_return error))))"

text \<open>
  The four conversions, each an \<^verbatim>\<open>if\<close> of its own that overwrites the variable
  \<^verbatim>\<open>error\<close> when its test holds and leaves it alone otherwise.
\<close>

definition rule_CastError :: "jsval \<Rightarrow> jsval \<Rightarrow> jsval js" where
  "rule_CastError err error =
     js_bind (js_read (\<lambda>h. get h err ''name'')) (\<lambda>name.
       if name = JStr ''CastError'' then new_AppError ''Invalid ID format'' 400
       else js_return error)"

definition rule_ValidationError :: "jsval \<Rightarrow> jsval \<Rightarrow> jsval js" where
  "rule_ValidationError err error =
     js_bind (js_read (\<lambda>h. get h err ''name'')) (\<lambda>name.
       if name = JStr ''ValidationError'' then
         js_bind (js_read (\<lambda>h. get h err ''errors'')) (\<lambda>errors.
         js_bind (js_read (\<lambda>h. Object_values h errors)) (\<lambda>vs.
         js_bind (js_read (\<lambda>h. Array_map (\<lambda>e. get h e ''message'') vs)) (\<lambda>ms.
         js_bind (js_read (\<lambda>h. Array_join h ms ''. '')) (\<lambda>messages.
         new_AppError messages 400))))
       else js_return error)"

definition rule_duplicate_key :: "jsval \<Rightarrow> jsval \<Rightarrow> jsval js" where
  "rule_duplicate_key err error =
     js_bind (js_read (\<lambda>h. get h err ''code'')) (\<lambda>code.
       if code = JNum 11000 then
         js_bind (js_read (\<lambda>h. get h err ''keyValue'')) (\<lambda>keyValue.
         js_bind (if truthy keyValue then js_return keyValue
                  else alloc (Obj [] (Some ''[object Object]''))) (\<lambda>payload.
         js_bind (js_read (\<lambda>h. Object_keys h payload)) (\<lambda>ks.
         js_bind (js_read (\<lambda>h. Array_join h (map JStr ks) '', '')) (\<lambda>field.
         new_AppError (''Duplicate field value: '' @ field) 400))))
       else js_return error)"

definition rule_DocumentNotFoundError :: "jsval \<Rightarrow> jsval \<Rightarrow> jsval js" where
  "rule_DocumentNotFoundError err error =
     js_bind (js_read (\<lambda>h. get h err ''name'')) (\<lambda>name.
       if name = JStr ''DocumentNotFoundError'' then
         new_AppError ''Requested document not found'' 404
       else js_return error)"

text \<open>Lines 113 to 141: the value of \<^verbatim>\<open>error\<close> that reaches the response step.\<close>

definition classify :: "jsval \<Rightarrow> jsval js" where
  "classify err =
     js_bind (copy_and_log err) (\<lambda>error.
     js_bind (rule_CastError err error) (\<lambda>error.
     js_bind (rule_ValidationError err error) (\<lambda>error.
     js_bind (rule_duplicate_key err error) (\<lambda>error.
     rule_DocumentNotFoundError err error))))"

text \<open>Lines 143 to 148: the response step.\<close>

definition respond :: "jsval \<Rightarrow> unit js" where
  "respond error =
     js_bind (js_read (\<lambda>h. get h error ''statusCode'')) (\<lambda>sc.
     js_bind (js_return (js_or sc (JNum 500))) (\<lambda>statusCode.
     js_bind (js_read (\<lambda>h. get h error ''message'')) (\<lambda>m.
     res_status_json statusCode
       [(''statusCode'', statusCode),
        (''message'', js_or m (JStr ''Something went wrong''))])))"

text \<open>
  \<^verbatim>\<open>app.use((err, req, res, next) => ...)\<close>. The response object \<^verbatim>\<open>res\<close> is the response
  sink of the world; \<^verbatim>\<open>req\<close> and \<^verbatim>\<open>next\<close> are not used by the body.
\<close>

definition error_middleware :: "jsval \<Rightarrow> req \<Rightarrow> (jsval \<Rightarrow> world \<Rightarrow> world) \<Rightarrow> unit js" where
  "error_middleware err req next = js_bind (classify err) respond"

section \<open>The catch-all for unknown routes\<close>

text \<open>
  A handler receives the request, the response sink (part of the world) and the callback
  \<^verbatim>\<open>next\<close> of the routing layer. Express's \<^verbatim>\<open>next\<close> runs the layers downstream, catches what
  they throw and returns \<^verbatim>\<open>undefined\<close>: it changes the world and does not throw. What a
  handler returns is a promise, for an \<^verbatim>\<open>async\<close> function, or another value. The world a
  handler returns is the world once its promise has settled (or, for a promise that never
  settles, once the handler has gone as far as it ever goes).
\<close>

datatype settled = Fulfilled jsval | Rejected jsval | Pending

datatype retval = Promise settled | Plain jsval

type_synonym forward = "jsval \<Rightarrow> world \<Rightarrow> world"

type_synonym handler = "req \<Rightarrow> forward \<Rightarrow> retval js"

text \<open>\<^verbatim>\<open>app.all('*', (req, res, next) => ...)\<close>\<close>

definition catch_all :: handler where
  "catch_all req next =
     js_bind (new_AppError (''Can't find '' @ url req @ '' on this server'') 404) (\<lambda>e w.
       (Returned (Plain JUndefined), next e w))"

text \<open>
  The routing layer around the two entry points. An error that the error-handling
  middleware itself throws falls through to Express's built-in handler, as does whatever
  the middleware passes to its own \<^verbatim>\<open>next\<close>. \<^verbatim>\<open>next(err)\<close> with a truthy \<open>err\<close> enters the
  error-handling middleware; with a falsy one, or with one of the strings \<^verbatim>\<open>'route'\<close> and
  \<^verbatim>\<open>'router'\<close>, Express resumes normal routing, which is outside this model.
\<close>

definition final_handler :: "exn \<Rightarrow> world \<Rightarrow> world" where
  "final_handler x w = w\<lparr>fallthrough := fallthrough w @ [x]\<rparr>"

definition express_next :: "req \<Rightarrow> forward" where
  "express_next req err w =
     (if truthy err \<and> err \<noteq> JStr ''route'' \<and> err \<noteq> JStr ''router'' then
        (case error_middleware err req (\<lambda>e. final_handler (Raised e)) w of
           (Returned _, w') \<Rightarrow> w'
         | (Threw x, w') \<Rightarrow> final_handler x w')
      else w)"

text \<open>A request that no route matches reaches the catch-all, with Express's \<^verbatim>\<open>next\<close>.\<close>

definition unmatched_request :: "req \<Rightarrow> retval js" where
  "unmatched_request req = catch_all req (express_next req)"

section \<open>The Handler Boundary Adapter\<close>

text \<open>
  \<^verbatim>\<open>p.catch(f)\<close>: when \<open>p\<close> rejects with \<open>e\<close>, the callback runs on \<open>e\<close> and the derived
  promise fulfils with what the callback returns (here \<^verbatim>\<open>undefined\<close>, what \<^verbatim>\<open>next\<close>
  returns); otherwise the derived promise follows \<open>p\<close> and the callback does not run.
\<close>

definition promise_catch :: "settled \<Rightarrow> forward \<Rightarrow> world \<Rightarrow> settled \<times> world" where
  "promise_catch p on_rejected w = (case p of
       Rejected e \<Rightarrow> (Fulfilled JUndefined, on_rejected e w)
     | Fulfilled v \<Rightarrow> (Fulfilled v, w)
     | Pending \<Rightarrow> (Pending, w))"

text \<open>
  A promise that nothing holds and that has no rejection handler: when it is rejected, the
  runtime reports an unhandled rejection.
\<close>

definition discard_promise :: "settled \<Rightarrow> world \<Rightarrow> world" where
  "discard_promise p w = (case p of
       Rejected e \<Rightarrow> w\<lparr>unhandled := unhandled w @ [e]\<rparr>
     | _ \<Rightarrow> w)"

text \<open>
  \<^verbatim>\<open>catchAsync(fn)\<close> of \<^verbatim>\<open>utils/catchAsync.js\<close>. The wrapper calls \<open>fn\<close>; an exception
  of that call propagates; a returned value that is not a promise has no \<^verbatim>\<open>catch\<close>,
  so calling it is a \<^verbatim>\<open>TypeError\<close>; on a promise, \<^verbatim>\<open>catch\<close> attaches
  \<^verbatim>\<open>(err) => next(err)\<close> and the derived promise is dropped. The wrapper has no
  \<^verbatim>\<open>return\<close>: it returns \<^verbatim>\<open>undefined\<close>.
\<close>

definition catchAsync :: "handler \<Rightarrow> handler" where
  "catchAsync fn = (\<lambda>req next w.
     (case fn req next w of
        (Threw x, w1) \<Rightarrow> (Threw x, w1)
      | (Returned (Plain v), w1) \<Rightarrow> (Threw TypeError, w1)
      | (Returned (Promise p), w1) \<Rightarrow>
          (let (p', w2) = promise_catch p (\<lambda>err. next err) w1
           in (Returned (Plain JUndefined), discard_promise p' w2))))"

section \<open>Vocabulary of the properties\<close>

text \<open>\<^verbatim>\<open>v.k\<close> for a value that is not \<^verbatim>\<open>undefined\<close> or \<^verbatim>\<open>null\<close>.\<close>

definition read :: "heap \<Rightarrow> jsval \<Rightarrow> string \<Rightarrow> jsval" where
  "read h v k = (case get h v k of Returned x \<Rightarrow> x | Threw _ \<Rightarrow> JUndefined)"

text \<open>The responses written by a run.\<close>

definition emitted :: "'a result \<times> world \<Rightarrow> response list" where
  "emitted rw = responses (snd rw)"

definition is_integer :: "jsval \<Rightarrow> bool" where
  "is_integer v = (case v of JNum n \<Rightarrow> True | _ \<Rightarrow> False)"

definition is_string :: "jsval \<Rightarrow> bool" where
  "is_string v = (case v of JStr s \<Rightarrow> True | _ \<Rightarrow> False)"

text \<open>
  The field-validation shape: \<^verbatim>\<open>err.errors\<close> is an object whose own enumerable values are
  objects, one for each failing field, with a string \<^verbatim>\<open>message\<close>.
  \<open>validation_messages\<close> gives the messages in field order, or \<open>None\<close> when
  \<^verbatim>\<open>err.errors\<close> is not of that form.
\<close>

definition field_message :: "heap \<Rightarrow> jsval \<Rightarrow> string option" where
  "field_message h e = (case e of
       JRef b \<Rightarrow> (if b < length h
                  then (case lookup_prop ''message'' (props (h ! b)) of
                          JStr s \<Rightarrow> Some s | _ \<Rightarrow> None)
                  else None)
     | _ \<Rightarrow> None)"

definition field_errors :: "heap \<Rightarrow> jsval \<Rightarrow> jsval list option" where
  "field_errors h err = (case read h err ''errors'' of
       JRef a \<Rightarrow> (if a < length h then Some (map pval (filter own_enumerable (props (h ! a))))
                  else None)
     | _ \<Rightarrow> None)"

definition validation_messages :: "heap \<Rightarrow> jsval \<Rightarrow> string list option" where
  "validation_messages h err = (case field_errors h err of
       None \<Rightarrow> None
     | Some es \<Rightarrow> those (map (field_message h) es))"

text \<open>The key set of the conflict payload, read through the guard \<^verbatim>\<open>err.keyValue || {}\<close>.\<close>

definition conflict_keys :: "heap \<Rightarrow> jsval \<Rightarrow> string list" where
  "conflict_keys h err =
     (if truthy (read h err ''keyValue'') then map pkey (own_enum_props h (read h err ''keyValue''))
      else [])"

text \<open>
  The recognised shapes in their fixed order, when a raw error matches one, and the
  Application Error that the rule of a shape builds. A raw error has the field-validation
  shape when its tag is \<^verbatim>\<open>ValidationError\<close> and its \<^verbatim>\<open>errors\<close> is a field mapping, and
  the uniqueness-conflict shape when its code is 11000 (a payload, when it is a reference,
  refers to an allocated object). \<open>last_match\<close> is the reading of the classifier as
  "the last matching rule wins", to be compared with \<open>classify\<close>.
\<close>

datatype shape = InvalidIdentifier | FieldValidation | UniquenessConflict | NotFound

definition rule_order :: "shape list" where
  "rule_order = [InvalidIdentifier, FieldValidation, UniquenessConflict, NotFound]"

fun matches :: "heap \<Rightarrow> jsval \<Rightarrow> shape \<Rightarrow> bool" where
  "matches h err InvalidIdentifier = (get h err ''name'' = Returned (JStr ''CastError''))"
| "matches h err FieldValidation =
     (get h err ''name'' = Returned (JStr ''ValidationError'') \<and> validation_messages h err \<noteq> None)"
| "matches h err UniquenessConflict =
     (get h err ''code'' = Returned (JNum 11000) \<and> allocated h (read h err ''keyValue''))"
| "matches h err NotFound = (get h err ''name'' = Returned (JStr ''DocumentNotFoundError''))"

fun converted :: "heap \<Rightarrow> jsval \<Rightarrow> shape \<Rightarrow> jsobj" where
  "converted h err InvalidIdentifier = AppError_obj ''Invalid ID format'' 400"
| "converted h err FieldValidation =
     AppError_obj (intercalate ''. ''
       (case validation_messages h err of Some ms \<Rightarrow> ms | None \<Rightarrow> [])) 400"
| "converted h err UniquenessConflict =
     AppError_obj (''Duplicate field value: '' @ intercalate '', '' (conflict_keys h err)) 400"
| "converted h err NotFound = AppError_obj ''Requested document not found'' 404"

definition matching_rules :: "heap \<Rightarrow> jsval \<Rightarrow> shape list" where
  "matching_rules h err = filter (matches h err) rule_order"

definition last_match :: "heap \<Rightarrow> jsval \<Rightarrow> shape" where
  "last_match h err = last (matching_rules h err)"

text \<open>A raw error that one of the four tests of the middleware accepts.\<close>

definition recognised :: "heap \<Rightarrow> jsval \<Rightarrow> bool" where
  "recognised h err =
     (read h err ''name'' = JStr ''CastError'' \<or> read h err ''name'' = JStr ''ValidationError''
      \<or> read h err ''code'' = JNum 11000 \<or> read h err ''name'' = JStr ''DocumentNotFoundError'')"

subsection \<open>Auxiliary notions of the proofs\<close>

text \<open>The shallow copy as it stands after line 114.\<close>

definition copy_obj :: "heap \<Rightarrow> jsval \<Rightarrow> jsobj" where
  "copy_obj h err =
     Obj (set_prop ''message'' (read h err ''message'')
            (map (\<lambda>p. Prop (pkey p) (pval p) True) (own_enum_props h err)))
         (Some ''[object Object]'')"

text \<open>The four rules in sequence, after the copy.\<close>

definition convert :: "jsval \<Rightarrow> jsval \<Rightarrow> jsval js" where
  "convert err error =
     js_bind (rule_CastError err error) (\<lambda>error.
     js_bind (rule_ValidationError err error) (\<lambda>error.
     js_bind (rule_duplicate_key err error) (\<lambda>error.
     rule_DocumentNotFoundError err error)))"

text \<open>A computation that only allocates: it extends the heap and changes nothing else.\<close>

definition grows :: "'a js \<Rightarrow> bool" where
  "grows m = (\<forall>w r w'. m w = (r, w') \<longrightarrow>
     (\<exists>xs. heap w' = heap w @ xs) \<and> responses w' = responses w \<and> console w' = console w
     \<and> unhandled w' = unhandled w \<and> fallthrough w' = fallthrough w)"

text \<open>A computation that returns the given value or a reference.\<close>

definition fresh_or :: "jsval \<Rightarrow> jsval js \<Rightarrow> bool" where
  "fresh_or error m = (\<forall>w r w'. m w = (Returned r, w') \<longrightarrow> r = error \<or> (\<exists>a. r = JRef a))"

section \<open>Concrete inputs\<close>

definition empty_world :: world where
  "empty_world = \<lparr>heap = [], responses = [], console = [], unhandled = [], fallthrough = []\<rparr>"

definition world_of :: "heap \<Rightarrow> world" where
  "world_of h = empty_world\<lparr>heap := h\<rparr>"

definition get_foo :: req where
  "get_foo = \<lparr>url = ''/foo'', http_verb = ''GET''\<rparr>"

text \<open>A callback in the place of \<^verbatim>\<open>next\<close> that keeps what it is given, in order.\<close>

definition keep_error :: forward where
  "keep_error e = final_handler (Raised e)"

text \<open>
  The handler of route \<^verbatim>\<open>/async-good\<close>: it awaits a promise rejected with a new
  \<^verbatim>\<open>Error\<close>, so its own promise rejects with that error.
\<close>

definition async_good :: handler where
  "async_good req next =
     js_bind (alloc (Obj [Prop ''message'' (JStr ''Async failure insider catchAsync'') False,
                          Prop ''name'' (JStr ''Error'') False]
                         (Some ''Error: Async failure insider catchAsync''))) (\<lambda>e.
     js_return (Promise (Rejected e)))"

text \<open>An \<^verbatim>\<open>async\<close> handler that answers and completes.\<close>

definition async_ok :: handler where
  "async_ok req next =
     js_bind (res_status_json (JNum 200) [(''status'', JStr ''success'')]) (\<lambda>_.
     js_return (Promise (Fulfilled JUndefined)))"

text \<open>
  Raw errors as the data-access layer raises them. \<^verbatim>\<open>name\<close> and \<^verbatim>\<open>message\<close> of an error
  object are not own enumerable properties; \<^verbatim>\<open>code\<close>, \<^verbatim>\<open>errors\<close> and \<^verbatim>\<open>keyValue\<close> are.
\<close>

definition cast_error :: heap where
  "cast_error =
     [Obj [Prop ''name'' (JStr ''CastError'') False,
           Prop ''message'' (JStr ''Cast to ObjectId failed'') False,
           Prop ''path'' (JStr ''_id'') True]
          (Some ''CastError: Cast to ObjectId failed'')]"

text \<open>The tag \<^verbatim>\<open>CastError\<close> together with the code 11000.\<close>

definition cast_error_11000 :: heap where
  "cast_error_11000 =
     [Obj [Prop ''name'' (JStr ''CastError'') False,
           Prop ''message'' (JStr ''Cast to ObjectId failed'') False,
           Prop ''code'' (JNum 11000) True]
          (Some ''CastError: Cast to ObjectId failed'')]"

text \<open>Fields \<^verbatim>\<open>{a: "A invalid", b: "B invalid"}\<close>.\<close>

definition validation_error :: heap where
  "validation_error =
     [Obj [Prop ''name'' (JStr ''ValidationError'') False,
           Prop ''message'' (JStr ''Validation failed'') False,
           Prop ''errors'' (JRef 1) True]
          (Some ''ValidationError: Validation failed''),
      Obj [Prop ''a'' (JRef 2) True, Prop ''b'' (JRef 3) True] (Some ''[object Object]''),
      Obj [Prop ''message'' (JStr ''A invalid'') False] (Some ''ValidatorError: A invalid''),
      Obj [Prop ''message'' (JStr ''B invalid'') False] (Some ''ValidatorError: B invalid'')]"

definition validation_error_11000 :: heap where
  "validation_error_11000 =
     [Obj [Prop ''name'' (JStr ''ValidationError'') False,
           Prop ''message'' (JStr ''Validation failed'') False,
           Prop ''errors'' (JRef 1) True,
           Prop ''code'' (JNum 11000) True]
          (Some ''ValidationError: Validation failed''),
      Obj [Prop ''a'' (JRef 2) True, Prop ''b'' (JRef 3) True] (Some ''[object Object]''),
      Obj [Prop ''message'' (JStr ''A invalid'') False] (Some ''ValidatorError: A invalid''),
      Obj [Prop ''message'' (JStr ''B invalid'') False] (Some ''ValidatorError: B invalid'')]"

text \<open>Conflict key \<^verbatim>\<open>{email: "x@y.com"}\<close>.\<close>

definition duplicate_key :: heap where
  "duplicate_key =
     [Obj [Prop ''name'' (JStr ''MongoServerError'') False,
           Prop ''message'' (JStr ''E11000 duplicate key error'') False,
           Prop ''code'' (JNum 11000) True,
           Prop ''keyValue'' (JRef 1) True]
          (Some ''MongoServerError: E11000 duplicate key error''),
      Obj [Prop ''email'' (JStr ''x@y.com'') True] (Some ''[object Object]'')]"

definition duplicate_key_no_payload :: heap where
  "duplicate_key_no_payload =
     [Obj [Prop ''name'' (JStr ''MongoServerError'') False,
           Prop ''message'' (JStr ''E11000 duplicate key error'') False,
           Prop ''code'' (JNum 11000) True]
          (Some ''MongoServerError: E11000 duplicate key error'')]"

definition not_found :: heap where
  "not_found =
     [Obj [Prop ''name'' (JStr ''DocumentNotFoundError'') False,
           Prop ''message'' (JStr ''No document found for query'') False]
          (Some ''DocumentNotFoundError: No document found for query'')]"

text \<open>The tag \<^verbatim>\<open>DocumentNotFoundError\<close> together with the code 11000 and a conflict key.\<close>

definition not_found_11000 :: heap where
  "not_found_11000 =
     [Obj [Prop ''name'' (JStr ''DocumentNotFoundError'') False,
           Prop ''message'' (JStr ''No document found for query'') False,
           Prop ''code'' (JNum 11000) True,
           Prop ''keyValue'' (JRef 1) True]
          (Some ''DocumentNotFoundError: No document found for query''),
      Obj [Prop ''email'' (JStr ''x@y.com'') True] (Some ''[object Object]'')]"

definition not_found_11000_no_payload :: heap where
  "not_found_11000_no_payload =
     [Obj [Prop ''name'' (JStr ''DocumentNotFoundError'') False,
           Prop ''message'' (JStr ''No document found for query'') False,
           Prop ''code'' (JNum 11000) True]
          (Some ''DocumentNotFoundError: No document found for query'')]"

text \<open>Values passed to \<^verbatim>\<open>next\<close> that are not errors of a library: \<^verbatim>\<open>{}\<close> and \<^verbatim>\<open>{message: 42}\<close>.\<close>

definition empty_object :: heap where
  "empty_object = [Obj [] (Some ''[object Object]'')]"

definition numeric_message :: heap where
  "numeric_message = [Obj [Prop ''message'' (JNum 42) True] (Some ''[object Object]'')]"

section \<open>Lemmas about the model\<close>

subsection \<open>Allocation leaves the allocated objects alone\<close>

lemma deref_append [simp]: "a < length h \<Longrightarrow> deref (h @ xs) a = deref h a"
  by (simp add: deref_def nth_append)

lemma get_append [simp]: "allocated h v \<Longrightarrow> get (h @ xs) v k = get h v k"
  by (cases v) (simp_all add: get_def allocated_def)

lemma own_enum_props_append [simp]:
  "allocated h v \<Longrightarrow> own_enum_props (h @ xs) v = own_enum_props h v"
  by (cases v) (simp_all add: own_enum_props_def allocated_def)

lemma to_string_append [simp]: "allocated h v \<Longrightarrow> to_string (h @ xs) v = to_string h v"
  by (cases v) (simp_all add: to_string_def allocated_def)

lemma allocated_append [simp]: "allocated h v \<Longrightarrow> allocated (h @ xs) v"
  by (cases v) (simp_all add: allocated_def)

lemma read_append [simp]: "allocated h v \<Longrightarrow> read (h @ xs) v k = read h v k"
  by (simp add: read_def)

subsection \<open>Reads, joins and property lists\<close>

lemma get_Returned_allocated:
  "get h v k = Returned (JStr s) \<Longrightarrow> allocated h v"
  "get h v k = Returned (JNum n) \<Longrightarrow> allocated h v"
  "get h v k = Returned (JRef b) \<Longrightarrow> allocated h v"
  by (cases v; simp add: get_def allocated_def deref_def split: if_splits)+

lemma get_not_nullish: "\<not> nullish v \<Longrightarrow> get h v k = Returned (read h v k)"
  by (cases v) (simp_all add: get_def read_def nullish_def)

lemma get_Returned_iff:
  "get h v k = Returned x \<longleftrightarrow> \<not> nullish v \<and> read h v k = x"
  by (cases v) (auto simp: get_def read_def nullish_def)

lemma Array_join_strings [simp]: "Array_join h (map JStr ks) sep = Returned (intercalate sep ks)"
proof -
  have "Array_map (join_element h) (map JStr ks) = Returned ks"
    by (induction ks) (simp_all add: join_element_def nullish_def to_string_def)
  then show ?thesis by (simp add: Array_join_def)
qed

lemma sublist_intercalate: "k \<in> set ks \<Longrightarrow> sublist k (intercalate sep ks)"
proof (induction sep ks rule: intercalate.induct)
  case (1 sep)
  then show ?case by simp
next
  case (2 sep x)
  then show ?case by simp
next
  case (3 sep x y ys)
  show ?case
  proof (cases "k = x")
    case True
    then show ?thesis by (simp add: sublist_append)
  next
    case False
    with 3 have "sublist k (intercalate sep (y # ys))" by simp
    then show ?thesis by (simp add: sublist_append)
  qed
qed

lemma lookup_prop_set_prop_same [simp]: "lookup_prop k (set_prop k v ps) = v"
  by (induction ps) simp_all

lemma lookup_prop_set_prop_other [simp]:
  "k' \<noteq> k \<Longrightarrow> lookup_prop k' (set_prop k v ps) = lookup_prop k' ps"
  by (induction ps) simp_all

lemma lookup_prop_enumerable [simp]:
  "lookup_prop k (map (\<lambda>p. Prop (pkey p) (pval p) True) ps) = lookup_prop k ps"
  by (induction ps) simp_all

lemma nth_append_beyond [simp]: "length h \<le> n \<Longrightarrow> (h @ xs) ! n = xs ! (n - length h)"
  by (simp add: nth_append)

lemma Suc_diff_self [simp]: "Suc n - n = Suc 0" "Suc (Suc n) - n = Suc (Suc 0)"
  "Suc (Suc (Suc n)) - n = Suc (Suc (Suc 0))" "Suc (Suc (Suc (Suc n))) - n = Suc (Suc (Suc (Suc 0)))"
  by simp_all

subsection \<open>Computations that only allocate\<close>

lemma grows_return [simp]: "grows (js_return a)"
  by (simp add: grows_def js_return_def)

lemma grows_read [simp]: "grows (js_read f)"
  by (simp add: grows_def js_read_def)

lemma grows_alloc [simp]: "grows (alloc obj)"
  by (auto simp: grows_def alloc_def)

lemma grows_new_AppError [simp]: "grows (new_AppError m s)"
  by (simp add: new_AppError_def)

lemma grows_bind [intro!]: "grows m \<Longrightarrow> (\<And>a. grows (f a)) \<Longrightarrow> grows (js_bind m f)"
  unfolding grows_def js_bind_def
  apply (intro allI impI)
  subgoal for w r w'
    apply (cases "m w")
    subgoal for r1 w1
      apply (cases r1)
       apply (simp, metis append.assoc)
      apply auto
      done
    done
  done

lemma grows_if [intro!]: "(c \<Longrightarrow> grows a) \<Longrightarrow> (\<not> c \<Longrightarrow> grows b) \<Longrightarrow> grows (if c then a else b)"
  by simp

lemma grows_rule_CastError: "grows (rule_CastError err error)"
  unfolding rule_CastError_def by (intro grows_bind grows_if) simp_all

lemma grows_rule_ValidationError: "grows (rule_ValidationError err error)"
  unfolding rule_ValidationError_def by (intro grows_bind grows_if) simp_all

lemma grows_rule_duplicate_key: "grows (rule_duplicate_key err error)"
  unfolding rule_duplicate_key_def by (intro grows_bind grows_if) simp_all

lemma grows_rule_DocumentNotFoundError: "grows (rule_DocumentNotFoundError err error)"
  unfolding rule_DocumentNotFoundError_def by (intro grows_bind grows_if) simp_all

subsection \<open>The steps of the middleware in closed form\<close>

lemma copy_and_log_nullish:
  "nullish err \<Longrightarrow> copy_and_log err w =
     (Threw TypeError, w\<lparr>heap := heap w @ [Obj [] (Some ''[object Object]'')]\<rparr>)"
  by (auto simp: nullish_def copy_and_log_def js_bind_def Object_assign_empty_def alloc_def
      js_read_def get_def own_enum_props_def)

lemma copy_and_log_closed:
  "\<not> nullish err \<Longrightarrow> allocated (heap w) err \<Longrightarrow> copy_and_log err w =
     (Returned (JRef (length (heap w))),
      w\<lparr>heap := heap w @ [copy_obj (heap w) err],
        console := console w @ [LogError error_label err (heap w @ [copy_obj (heap w) err])]\<rparr>)"
  by (simp add: copy_and_log_def js_bind_def Object_assign_empty_def alloc_def
      js_read_def get_not_nullish property_set_def console_error_def js_return_def copy_obj_def)

lemma copy_and_log_cases:
  "copy_and_log err w = (r, w1) \<Longrightarrow>
     (nullish err \<and> r = Threw TypeError \<and> console w1 = console w
        \<and> heap w1 = heap w @ [Obj [] (Some ''[object Object]'')])
   \<or> (\<not> nullish err \<and> r = Returned (JRef (length (heap w)))
        \<and> (\<exists>c. heap w1 = heap w @ [c]
               \<and> console w1 = console w @ [LogError error_label err (heap w @ [c])]))"
  by (cases err)
     (auto simp: copy_and_log_def js_bind_def Object_assign_empty_def alloc_def js_read_def
      get_def property_set_def console_error_def js_return_def nullish_def own_enum_props_def)

lemma copy_and_log_frame:
  "copy_and_log err w = (r, w1) \<Longrightarrow>
   responses w1 = responses w \<and> unhandled w1 = unhandled w \<and> fallthrough w1 = fallthrough w"
  by (cases err)
     (auto simp: copy_and_log_def js_bind_def Object_assign_empty_def alloc_def js_read_def
      get_def property_set_def console_error_def js_return_def)

lemma rule_CastError_closed:
  "\<not> nullish err \<Longrightarrow> rule_CastError err error w =
     (if read (heap w) err ''name'' = JStr ''CastError''
      then (Returned (JRef (length (heap w))),
            w\<lparr>heap := heap w @ [AppError_obj ''Invalid ID format'' 400]\<rparr>)
      else (Returned error, w))"
  by (simp add: rule_CastError_def js_bind_def js_read_def get_not_nullish new_AppError_def
      alloc_def js_return_def)

lemma rule_DocumentNotFoundError_closed:
  "\<not> nullish err \<Longrightarrow> rule_DocumentNotFoundError err error w =
     (if read (heap w) err ''name'' = JStr ''DocumentNotFoundError''
      then (Returned (JRef (length (heap w))),
            w\<lparr>heap := heap w @ [AppError_obj ''Requested document not found'' 404]\<rparr>)
      else (Returned error, w))"
  by (simp add: rule_DocumentNotFoundError_def js_bind_def js_read_def get_not_nullish
      new_AppError_def alloc_def js_return_def)

lemma conflict_keys_append:
  "allocated h err \<Longrightarrow> allocated h (read h err ''keyValue'') \<Longrightarrow>
   conflict_keys (h @ xs) err = conflict_keys h err"
  by (simp add: conflict_keys_def)

lemma rule_duplicate_key_closed:
  "\<not> nullish err \<Longrightarrow> rule_duplicate_key err error w =
     (if read (heap w) err ''code'' = JNum 11000
      then (if truthy (read (heap w) err ''keyValue'')
            then (Returned (JRef (length (heap w))),
                  w\<lparr>heap := heap w @
                     [AppError_obj (''Duplicate field value: '' @
                        intercalate '', '' (conflict_keys (heap w) err)) 400]\<rparr>)
            else (Returned (JRef (Suc (length (heap w)))),
                  w\<lparr>heap := heap w @
                     [Obj [] (Some ''[object Object]''),
                      AppError_obj ''Duplicate field value: '' 400]\<rparr>))
      else (Returned error, w))"
  by (auto simp: rule_duplicate_key_def js_bind_def js_read_def get_not_nullish
      new_AppError_def alloc_def js_return_def Object_keys_def conflict_keys_def
      nullish_def truthy_def own_enum_props_def deref_def)

lemma field_message_append:
  "field_message h e = Some s \<Longrightarrow> field_message (h @ xs) e = Some s"
  by (cases e) (auto simp: field_message_def nth_append split: if_splits)

lemma those_field_message_append:
  "those (map (field_message h) es) = Some ms \<Longrightarrow>
   those (map (field_message (h @ xs)) es) = Some ms"
  by (induction es arbitrary: ms) (auto simp: field_message_append split: option.splits)

lemma validation_messages_append:
  "allocated h err \<Longrightarrow> validation_messages h err = Some ms \<Longrightarrow>
   validation_messages (h @ xs) err = Some ms"
  by (auto simp: validation_messages_def field_errors_def nth_append those_field_message_append
      simp del: map_map split: jsval.splits if_splits option.splits)

lemma field_message_get:
  "field_message h e = Some s \<Longrightarrow> get h e ''message'' = Returned (JStr s)"
  by (cases e) (auto simp: field_message_def get_def deref_def split: if_splits jsval.splits)

lemma Array_map_field_messages:
  "those (map (field_message h) es) = Some ms \<Longrightarrow>
   Array_map (\<lambda>e. get h e ''message'') es = Returned (map JStr ms)"
  by (induction es arbitrary: ms) (auto simp: field_message_get split: option.splits)

lemma rule_ValidationError_skip:
  "\<not> nullish err \<Longrightarrow> read (heap w) err ''name'' \<noteq> JStr ''ValidationError'' \<Longrightarrow>
   rule_ValidationError err error w = (Returned error, w)"
  by (simp add: rule_ValidationError_def js_bind_def js_read_def get_not_nullish js_return_def)

lemma rule_ValidationError_closed:
  "\<not> nullish err \<Longrightarrow> read (heap w) err ''name'' = JStr ''ValidationError'' \<Longrightarrow>
   validation_messages (heap w) err = Some ms \<Longrightarrow>
   rule_ValidationError err error w =
     (Returned (JRef (length (heap w))),
      w\<lparr>heap := heap w @ [AppError_obj (intercalate ''. '' ms) 400]\<rparr>)"
  by (auto simp: rule_ValidationError_def js_bind_def js_read_def get_not_nullish
      validation_messages_def field_errors_def Object_values_def nullish_def
      own_enum_props_def deref_def Array_map_field_messages new_AppError_def alloc_def
      simp del: map_map split: jsval.splits if_splits option.splits)

lemma respond_AppError:
  "a < length (heap w) \<Longrightarrow> heap w ! a = AppError_obj m s \<Longrightarrow>
   respond (JRef a) w =
     (Returned (), w\<lparr>responses := responses w @
        [Response (js_or (JNum s) (JNum 500))
           [(''statusCode'', js_or (JNum s) (JNum 500)),
            (''message'', js_or (JStr m) (JStr ''Something went wrong''))]]\<rparr>)"
  by (simp add: respond_def js_bind_def js_read_def get_def deref_def AppError_obj_def
      js_return_def res_status_json_def)

lemma respond_ref:
  "respond (JRef a) w =
     (Returned (), w\<lparr>responses := responses w @
        [Response (js_or (read (heap w) (JRef a) ''statusCode'') (JNum 500))
           [(''statusCode'', js_or (read (heap w) (JRef a) ''statusCode'') (JNum 500)),
            (''message'', js_or (read (heap w) (JRef a) ''message'') (JStr ''Something went wrong''))]]\<rparr>)"
  by (simp add: respond_def js_bind_def js_read_def get_not_nullish nullish_def js_return_def
      res_status_json_def)

lemma respond_frame:
  "respond error w = (r, w') \<Longrightarrow> heap w' = heap w \<and> console w' = console w"
  by (auto simp: respond_def js_bind_def js_read_def js_return_def res_status_json_def
      split: result.splits)

lemmas middleware_unfold =
  error_middleware_def classify_def js_bind_def copy_and_log_closed rule_CastError_closed
  rule_duplicate_key_closed rule_DocumentNotFoundError_closed respond_AppError

lemmas classify_unfold =
  classify_def js_bind_def copy_and_log_closed rule_CastError_closed
  rule_duplicate_key_closed rule_DocumentNotFoundError_closed

lemma classify_convert: "classify err = js_bind (copy_and_log err) (convert err)"
  unfolding classify_def convert_def [abs_def] ..

lemma grows_convert: "grows (convert err error)"
  unfolding convert_def
  by (intro grows_bind grows_rule_CastError grows_rule_ValidationError
      grows_rule_duplicate_key grows_rule_DocumentNotFoundError)

lemma fresh_or_rules:
  "fresh_or error (rule_CastError err error)"
  "fresh_or error (rule_ValidationError err error)"
  "fresh_or error (rule_duplicate_key err error)"
  "fresh_or error (rule_DocumentNotFoundError err error)"
  by (auto simp: fresh_or_def rule_CastError_def rule_ValidationError_def rule_duplicate_key_def
      rule_DocumentNotFoundError_def js_bind_def js_read_def js_return_def new_AppError_def
      alloc_def split: result.splits if_splits prod.splits)

lemma convert_returns_ref:
  assumes "convert err (JRef a) w = (Returned r, w')"
  shows "\<exists>b. r = JRef b"
proof -
  from assms obtain e1 w1 e2 w2 e3 w3 where
    1: "rule_CastError err (JRef a) w = (Returned e1, w1)" and
    2: "rule_ValidationError err e1 w1 = (Returned e2, w2)" and
    3: "rule_duplicate_key err e2 w2 = (Returned e3, w3)" and
    4: "rule_DocumentNotFoundError err e3 w3 = (Returned r, w')"
    by (auto simp: convert_def js_bind_def split: prod.splits result.splits)
  from 1 fresh_or_rules(1) [of "JRef a" err] have "\<exists>b. e1 = JRef b"
    unfolding fresh_or_def by blast
  with 2 fresh_or_rules(2) [of e1 err] have "\<exists>b. e2 = JRef b"
    unfolding fresh_or_def by blast
  with 3 fresh_or_rules(3) [of e2 err] have "\<exists>b. e3 = JRef b"
    unfolding fresh_or_def by blast
  with 4 fresh_or_rules(4) [of e3 err] show ?thesis
    unfolding fresh_or_def by blast
qed

lemma classify_returns_ref:
  assumes "classify err w = (Returned error, w1)"
  shows "\<exists>a. error = JRef a" and "responses w1 = responses w"
proof -
  obtain r0 w0 where c: "copy_and_log err w = (r0, w0)" by (cases "copy_and_log err w")
  with assms have "\<not> nullish err"
    using copy_and_log_cases [OF c] by (auto simp: classify_convert js_bind_def)
  with copy_and_log_cases [OF c] have r0: "r0 = Returned (JRef (length (heap w)))" by blast
  with assms c have cv: "convert err (JRef (length (heap w))) w0 = (Returned error, w1)"
    by (simp add: classify_convert js_bind_def)
  then show "\<exists>a. error = JRef a" by (rule convert_returns_ref)
  from grows_convert cv have "responses w1 = responses w0"
    unfolding grows_def by blast
  with copy_and_log_frame [OF c] show "responses w1 = responses w" by simp
qed

lemma classify_unrecognised:
  assumes "\<not> nullish err" and "allocated (heap w) err" and "\<not> recognised (heap w) err"
  shows "classify err w =
     (Returned (JRef (length (heap w))),
      w\<lparr>heap := heap w @ [copy_obj (heap w) err],
        console := console w @ [LogError error_label err (heap w @ [copy_obj (heap w) err])]\<rparr>)"
  using assms
  by (simp add: recognised_def classify_unfold rule_ValidationError_skip)

lemma error_middleware_AppError:
  assumes "a < length (heap w)" and "heap w ! a = AppError_obj m s"
  shows "\<exists>w'. error_middleware (JRef a) req next w = (Returned (), w')
     \<and> (\<forall>b<length (heap w). heap w' ! b = heap w ! b)
     \<and> responses w' = responses w @
         [Response (js_or (JNum s) (JNum 500))
            [(''statusCode'', js_or (JNum s) (JNum 500)),
             (''message'', js_or (JStr m) (JStr ''Something went wrong''))]]
     \<and> fallthrough w' = fallthrough w \<and> unhandled w' = unhandled w"
proof -
  let ?e = "JRef a"
  have al: "allocated (heap w) ?e" and nn: "\<not> nullish ?e"
    using assms by (simp_all add: allocated_def nullish_def)
  have name: "read (heap w) ?e ''name'' = JUndefined"
    and code: "read (heap w) ?e ''code'' = JUndefined"
    using assms by (simp_all add: read_def get_def deref_def AppError_obj_def)
  have copy: "copy_obj (heap w) ?e =
      Obj [Prop ''statusCode'' (JNum s) True, Prop ''isOperational'' (JBool True) True,
           Prop ''message'' (JStr m) True] (Some ''[object Object]'')"
    using assms
    by (simp add: copy_obj_def read_def get_def deref_def AppError_obj_def own_enum_props_def)
  show ?thesis
    using al nn name code
    apply (simp add: error_middleware_def classify_def js_bind_def copy_and_log_closed
        rule_CastError_closed rule_duplicate_key_closed rule_DocumentNotFoundError_closed
        rule_ValidationError_skip copy)
    apply (simp add: respond_def js_bind_def js_read_def get_def deref_def js_return_def
        res_status_json_def nth_append)
    done
qed

subsection \<open>Evaluation on concrete worlds\<close>

lemma world_of_simps [simp]:
  "heap (world_of h) = h" "responses (world_of h) = []" "console (world_of h) = []"
  "unhandled (world_of h) = []" "fallthrough (world_of h) = []"
  by (simp_all add: world_of_def empty_world_def)

lemma emitted_eq: "m = (r, w') \<Longrightarrow> responses w' = rs \<Longrightarrow> emitted m = rs"
  by (simp add: emitted_def)

lemma take_unchanged:
  "length h \<le> length h' \<Longrightarrow> \<forall>a<length h. h' ! a = h ! a \<Longrightarrow> take (length h) h' = h"
  by (simp add: list_eq_iff_nth_eq)

lemmas run_defs =
  error_middleware_def classify_def copy_and_log_def rule_CastError_def rule_ValidationError_def
  rule_duplicate_key_def rule_DocumentNotFoundError_def respond_def js_bind_def js_read_def
  js_return_def Object_assign_empty_def alloc_def new_AppError_def AppError_obj_def
  property_set_def console_error_def res_status_json_def get_def deref_def own_enum_props_def
  Object_keys_def Object_values_def Array_join_def join_element_def to_string_def nullish_def
  truthy_def js_or_def emitted_def world_of_def empty_world_def

section \<open>The adapter forwards an asynchronous failure\<close>

text \<open>
  C1. Let \<open>fn\<close> be any handler. If the promise that \<open>fn\<close> returns rejects with \<open>e\<close>,
  the wrapped handler does what \<open>fn\<close> did and then calls \<^verbatim>\<open>next\<close> once, on \<open>e\<close>: its
  world is \<open>next e\<close> of the world \<open>fn\<close> left, so nothing is added to the unhandled
  rejections. If the promise fulfils, the wrapped handler leaves the world that \<open>fn\<close>
  left and \<^verbatim>\<open>next\<close> is not called by the wrapper. In both cases the wrapper returns
  \<^verbatim>\<open>undefined\<close>, where \<open>fn\<close> returned its promise.
\<close>

theorem catchAsync_forwards_rejection:
  "(fn req next w = (Returned (Promise (Rejected e)), w1) \<longrightarrow>
      catchAsync fn req next w = (Returned (Plain JUndefined), next e w1))
   \<and> (fn req next w = (Returned (Promise (Fulfilled v)), w1) \<longrightarrow>
      catchAsync fn req next w = (Returned (Plain JUndefined), w1))"
  by (simp add: catchAsync_def promise_catch_def discard_promise_def)

theorem catchAsync_forwards_rejection_witness:
  "async_good get_foo keep_error empty_world =
     (Returned (Promise (Rejected (JRef 0))),
      world_of [Obj [Prop ''message'' (JStr ''Async failure insider catchAsync'') False,
                     Prop ''name'' (JStr ''Error'') False]
                    (Some ''Error: Async failure insider catchAsync'')])
   \<and> fallthrough (snd (catchAsync async_good get_foo keep_error empty_world)) = [Raised (JRef 0)]
   \<and> unhandled (snd (catchAsync async_good get_foo keep_error empty_world)) = []
   \<and> async_ok get_foo keep_error empty_world =
     (Returned (Promise (Fulfilled JUndefined)),
      empty_world\<lparr>responses := [Response (JNum 200) [(''status'', JStr ''success'')]]\<rparr>)
   \<and> snd (catchAsync async_ok get_foo keep_error empty_world) =
       snd (async_ok get_foo keep_error empty_world)"
proof -
  let ?o = "Obj [Prop ''message'' (JStr ''Async failure insider catchAsync'') False,
                 Prop ''name'' (JStr ''Error'') False]
                (Some ''Error: Async failure insider catchAsync'')"
  have bad: "async_good get_foo keep_error empty_world =
      (Returned (Promise (Rejected (JRef 0))), world_of [?o])"
    by (simp add: async_good_def js_bind_def js_return_def alloc_def empty_world_def world_of_def)
  have ok: "async_ok get_foo keep_error empty_world =
      (Returned (Promise (Fulfilled JUndefined)),
       empty_world\<lparr>responses := [Response (JNum 200) [(''status'', JStr ''success'')]]\<rparr>)"
    by (simp add: async_ok_def js_bind_def js_return_def res_status_json_def empty_world_def)
  from catchAsync_forwards_rejection
         [of async_good get_foo keep_error empty_world "JRef 0" "world_of [?o]"] bad
  have 1: "catchAsync async_good get_foo keep_error empty_world =
      (Returned (Plain JUndefined), keep_error (JRef 0) (world_of [?o]))"
    by blast
  from catchAsync_forwards_rejection
         [of async_ok get_foo keep_error empty_world _
             "empty_world\<lparr>responses := [Response (JNum 200) [(''status'', JStr ''success'')]]\<rparr>"
             JUndefined] ok
  have 2: "catchAsync async_ok get_foo keep_error empty_world =
      (Returned (Plain JUndefined),
       empty_world\<lparr>responses := [Response (JNum 200) [(''status'', JStr ''success'')]]\<rparr>)"
    by blast
  show ?thesis
    using bad ok 1 2
    by (simp add: keep_error_def final_handler_def world_of_def empty_world_def)
qed

section \<open>The last matching rule wins\<close>

text \<open>
  C2. The four conversion rules are evaluated one after the other, and each one that
  matches overwrites the result of the rules before it. For every raw error that matches
  more than one recognised shape, the error that reaches the response step is the
  Application Error built by the last matching rule in the order invalid-identifier,
  field-validation, uniqueness-conflict, not-found. (A raw error with the tag
  \<^verbatim>\<open>ValidationError\<close> whose \<^verbatim>\<open>errors\<close> is not a field mapping does not have the
  field-validation shape; on it the field-validation rule throws.)
\<close>

theorem last_matching_rule_wins:
  assumes "1 < length (matching_rules (heap w) err)"
  shows "\<exists>a w1. classify err w = (Returned (JRef a), w1) \<and> a < length (heap w1)
     \<and> heap w1 ! a = converted (heap w) err (last_match (heap w) err)"
proof -
  from assms have code: "get (heap w) err ''code'' = Returned (JNum 11000)"
    and kv: "allocated (heap w) (read (heap w) err ''keyValue'')"
    by (auto simp: matching_rules_def rule_order_def split: if_splits)
  from code have nn: "\<not> nullish err" and c: "read (heap w) err ''code'' = JNum 11000"
    by (simp_all add: get_Returned_iff)
  from code have al: "allocated (heap w) err" by (simp add: get_Returned_allocated)
  have ck: "\<And>xs. conflict_keys (heap w @ xs) err = conflict_keys (heap w) err"
    using al kv by (rule conflict_keys_append)
  have kvf: "\<not> truthy (read (heap w) err ''keyValue'') \<Longrightarrow> conflict_keys (heap w) err = []"
    by (simp add: conflict_keys_def)
  from assms consider
      (cast) "read (heap w) err ''name'' = JStr ''CastError''"
    | (val) ms where "read (heap w) err ''name'' = JStr ''ValidationError''"
        "validation_messages (heap w) err = Some ms"
    | (nf) "read (heap w) err ''name'' = JStr ''DocumentNotFoundError''"
    by (auto simp: matching_rules_def rule_order_def get_Returned_iff split: if_splits)
  then show ?thesis
  proof cases
    case cast
    then have "matching_rules (heap w) err = [InvalidIdentifier, UniquenessConflict]"
      using nn c kv by (simp add: matching_rules_def rule_order_def get_Returned_iff)
    then show ?thesis
      using nn al c cast kvf
      by (simp add: last_match_def classify_unfold rule_ValidationError_skip ck)
  next
    case val
    then have mr: "matching_rules (heap w) err = [FieldValidation, UniquenessConflict]"
      using nn c kv by (simp add: matching_rules_def rule_order_def get_Returned_iff)
    have vm: "\<And>xs. validation_messages (heap w @ xs) err = Some ms"
      using al val(2) by (rule validation_messages_append)
    show ?thesis
      using nn al c val kvf mr
      by (simp add: last_match_def classify_unfold rule_ValidationError_closed [where ms = ms] vm ck)
  next
    case nf
    then have "matching_rules (heap w) err = [UniquenessConflict, NotFound]"
      using nn c kv by (simp add: matching_rules_def rule_order_def get_Returned_iff)
    then show ?thesis
      using nn al c nf kvf
      by (simp add: last_match_def classify_unfold rule_ValidationError_skip ck)
  qed
qed

theorem last_matching_rule_wins_witness:
  "1 < length (matching_rules cast_error_11000 (JRef 0))
   \<and> last_match cast_error_11000 (JRef 0) = UniquenessConflict
   \<and> fst (classify (JRef 0) (world_of cast_error_11000)) = Returned (JRef 4)
   \<and> heap (snd (classify (JRef 0) (world_of cast_error_11000))) ! 4 =
       AppError_obj ''Duplicate field value: '' 400"
proof -
  let ?w = "world_of cast_error_11000"
  have m: "matching_rules cast_error_11000 (JRef 0) = [InvalidIdentifier, UniquenessConflict]"
    by (simp add: matching_rules_def rule_order_def cast_error_11000_def get_def deref_def
        read_def allocated_def)
  then have h: "1 < length (matching_rules (heap ?w) (JRef 0))"
    by simp
  have ck: "conflict_keys cast_error_11000 (JRef 0) = []"
    by (simp add: conflict_keys_def read_def get_def deref_def cast_error_11000_def truthy_def)
  have r: "fst (classify (JRef 0) ?w) = Returned (JRef 4)"
    by (simp add: run_defs cast_error_11000_def)
  from last_matching_rule_wins [OF h] obtain a w1 where
    k: "classify (JRef 0) ?w = (Returned (JRef a), w1)"
    and o: "heap w1 ! a = converted (heap ?w) (JRef 0) (last_match (heap ?w) (JRef 0))"
    by blast
  from k r have "a = 4" by simp
  with k o m ck
  have "heap (snd (classify (JRef 0) ?w)) ! 4 = AppError_obj ''Duplicate field value: '' 400"
    by (simp add: last_match_def)
  with m r show ?thesis by (simp add: last_match_def)
qed

section \<open>The invalid-identifier shape\<close>

text \<open>
  C3, as amended. For every raw error whose name tag is \<^verbatim>\<open>CastError\<close> and whose code is
  not 11000, the responder emits status 400 and the message \<^verbatim>\<open>Invalid ID format\<close> (the
  string of the program, which ends without a full stop).
\<close>

theorem cast_error_response:
  assumes "get (heap w) err ''name'' = Returned (JStr ''CastError'')"
      and "get (heap w) err ''code'' \<noteq> Returned (JNum 11000)"
  shows "\<exists>w'. error_middleware err req next w = (Returned (), w')
     \<and> responses w' = responses w @
         [Response (JNum 400)
            [(''statusCode'', JNum 400), (''message'', JStr ''Invalid ID format'')]]"
proof -
  from assms have nn: "\<not> nullish err" and name: "read (heap w) err ''name'' = JStr ''CastError''"
    and code: "read (heap w) err ''code'' \<noteq> JNum 11000"
    by (simp_all add: get_Returned_iff)
  from assms have al: "allocated (heap w) err" by (simp add: get_Returned_allocated)
  show ?thesis
    using nn name al code
    by (simp add: middleware_unfold rule_ValidationError_skip js_or_def truthy_def)
qed

theorem cast_error_response_witness:
  "get cast_error (JRef 0) ''name'' = Returned (JStr ''CastError'')
   \<and> get cast_error (JRef 0) ''code'' \<noteq> Returned (JNum 11000)
   \<and> emitted (error_middleware (JRef 0) get_foo keep_error (world_of cast_error)) =
       [Response (JNum 400) [(''statusCode'', JNum 400), (''message'', JStr ''Invalid ID format'')]]"
proof -
  have n: "get (heap (world_of cast_error)) (JRef 0) ''name'' = Returned (JStr ''CastError'')"
    by (simp add: cast_error_def get_def deref_def)
  have c: "get (heap (world_of cast_error)) (JRef 0) ''code'' \<noteq> Returned (JNum 11000)"
    by (simp add: cast_error_def get_def deref_def)
  from cast_error_response [OF n c, of get_foo keep_error]
  have "emitted (error_middleware (JRef 0) get_foo keep_error (world_of cast_error)) =
       [Response (JNum 400) [(''statusCode'', JNum 400), (''message'', JStr ''Invalid ID format'')]]"
    by (auto simp: emitted_def)
  with n c show ?thesis by simp
qed

text \<open>
  C3 as stated fails on a raw error that carries the tag \<^verbatim>\<open>CastError\<close> and the code
  11000: the uniqueness-conflict rule runs after the invalid-identifier rule and overwrites
  its result, so the message is that of a duplicate key.
\<close>

theorem cast_error_11000_counterexample:
  "get cast_error_11000 (JRef 0) ''name'' = Returned (JStr ''CastError'')
   \<and> emitted (error_middleware (JRef 0) get_foo keep_error (world_of cast_error_11000)) =
       [Response (JNum 400) [(''statusCode'', JNum 400), (''message'', JStr ''Duplicate field value: '')]]
   \<and> emitted (error_middleware (JRef 0) get_foo keep_error (world_of cast_error_11000)) \<noteq>
       [Response (JNum 400) [(''statusCode'', JNum 400), (''message'', JStr ''Invalid ID format'')]]"
  by (simp add: run_defs cast_error_11000_def)

section \<open>The field-validation shape\<close>

text \<open>
  C4, as amended. For every raw error whose name tag is \<^verbatim>\<open>ValidationError\<close>, whose
  \<^verbatim>\<open>errors\<close> maps the field names to objects with a string message, and whose code is not
  11000, the responder emits status 400; its message is the field messages joined with
  \<^verbatim>\<open>". "\<close> when that string is not empty, and \<^verbatim>\<open>Something went wrong\<close> when it is. For
  the fields \<^verbatim>\<open>{a: "A invalid", b: "B invalid"}\<close> the message is \<^verbatim>\<open>A invalid. B invalid\<close>.
\<close>

theorem validation_error_response:
  assumes "get (heap w) err ''name'' = Returned (JStr ''ValidationError'')"
      and "validation_messages (heap w) err = Some ms"
      and "get (heap w) err ''code'' \<noteq> Returned (JNum 11000)"
  shows "\<exists>w'. error_middleware err req next w = (Returned (), w')
     \<and> responses w' = responses w @
         [Response (JNum 400)
            [(''statusCode'', JNum 400),
             (''message'', JStr (if intercalate ''. '' ms = [] then ''Something went wrong''
                                 else intercalate ''. '' ms))]]"
proof -
  from assms have nn: "\<not> nullish err" and name: "read (heap w) err ''name'' = JStr ''ValidationError''"
    and code: "read (heap w) err ''code'' \<noteq> JNum 11000"
    by (simp_all add: get_Returned_iff)
  from assms have al: "allocated (heap w) err" by (simp add: get_Returned_allocated)
  have vm: "\<And>xs. validation_messages (heap w @ xs) err = Some ms"
    using al assms(2) by (rule validation_messages_append)
  show ?thesis
    using nn name al code
    by (simp add: middleware_unfold rule_ValidationError_closed [where ms = ms] vm
        js_or_def truthy_def)
qed

theorem validation_error_response_witness:
  "get validation_error (JRef 0) ''name'' = Returned (JStr ''ValidationError'')
   \<and> validation_messages validation_error (JRef 0) = Some [''A invalid'', ''B invalid'']
   \<and> get validation_error (JRef 0) ''code'' \<noteq> Returned (JNum 11000)
   \<and> emitted (error_middleware (JRef 0) get_foo keep_error (world_of validation_error)) =
       [Response (JNum 400) [(''statusCode'', JNum 400), (''message'', JStr ''A invalid. B invalid'')]]"
proof -
  have n: "get (heap (world_of validation_error)) (JRef 0) ''name'' =
      Returned (JStr ''ValidationError'')"
    by (simp add: validation_error_def get_def deref_def)
  have v: "validation_messages (heap (world_of validation_error)) (JRef 0) =
      Some [''A invalid'', ''B invalid'']"
    by (simp add: validation_error_def validation_messages_def field_errors_def
        field_message_def read_def get_def deref_def)
  have c: "get (heap (world_of validation_error)) (JRef 0) ''code'' \<noteq> Returned (JNum 11000)"
    by (simp add: validation_error_def get_def deref_def)
  from validation_error_response [OF n v c, of get_foo keep_error]
  have "emitted (error_middleware (JRef 0) get_foo keep_error (world_of validation_error)) =
       [Response (JNum 400) [(''statusCode'', JNum 400), (''message'', JStr ''A invalid. B invalid'')]]"
    by (auto simp: emitted_def)
  with n v c show ?thesis by simp
qed

text \<open>
  C4 as stated fails on a raw error of the field-validation shape that also carries the
  code 11000: the uniqueness-conflict rule overwrites the joined field messages.
\<close>

theorem validation_error_11000_counterexample:
  "get validation_error_11000 (JRef 0) ''name'' = Returned (JStr ''ValidationError'')
   \<and> validation_messages validation_error_11000 (JRef 0) = Some [''A invalid'', ''B invalid'']
   \<and> emitted (error_middleware (JRef 0) get_foo keep_error (world_of validation_error_11000)) =
       [Response (JNum 400) [(''statusCode'', JNum 400), (''message'', JStr ''Duplicate field value: '')]]
   \<and> emitted (error_middleware (JRef 0) get_foo keep_error (world_of validation_error_11000)) \<noteq>
       [Response (JNum 400) [(''statusCode'', JNum 400), (''message'', JStr ''A invalid. B invalid'')]]"
  by (simp add: run_defs validation_error_11000_def validation_messages_def field_errors_def
      field_message_def read_def)

section \<open>The uniqueness-conflict shape\<close>

text \<open>
  C5, as amended. For every raw error with code 11000 and a \<^verbatim>\<open>keyValue\<close> payload, whose name
  tag is not \<^verbatim>\<open>DocumentNotFoundError\<close> and whose \<^verbatim>\<open>errors\<close>, when the tag is
  \<^verbatim>\<open>ValidationError\<close>, maps the field names to objects with a string message, the
  responder emits status 400 and the message \<^verbatim>\<open>Duplicate field value: \<close> followed by the own
  enumerable keys of the payload joined with \<^verbatim>\<open>", "\<close>; every key of the payload occurs in
  the message. For the conflict key \<^verbatim>\<open>{email: "x@y.com"}\<close> the message contains \<^verbatim>\<open>email\<close>.
\<close>

theorem duplicate_key_response:
  assumes "get (heap w) err ''code'' = Returned (JNum 11000)"
      and "allocated (heap w) (read (heap w) err ''keyValue'')"
      and "get (heap w) err ''name'' \<noteq> Returned (JStr ''DocumentNotFoundError'')"
      and "get (heap w) err ''name'' = Returned (JStr ''ValidationError'') \<longrightarrow>
           validation_messages (heap w) err \<noteq> None"
  shows "\<exists>w'. error_middleware err req next w = (Returned (), w')
     \<and> responses w' = responses w @
         [Response (JNum 400)
            [(''statusCode'', JNum 400),
             (''message'', JStr (''Duplicate field value: '' @
                 intercalate '', '' (conflict_keys (heap w) err)))]]
     \<and> (\<forall>k\<in>set (conflict_keys (heap w) err).
          sublist k (''Duplicate field value: '' @
                 intercalate '', '' (conflict_keys (heap w) err)))"
proof -
  have names: "\<forall>k\<in>set (conflict_keys (heap w) err).
          sublist k (''Duplicate field value: '' @
                 intercalate '', '' (conflict_keys (heap w) err))"
    using sublist_intercalate [of _ "conflict_keys (heap w) err" "'', ''"]
    by (auto simp only: sublist_append)
  from assms have nn: "\<not> nullish err" and code: "read (heap w) err ''code'' = JNum 11000"
    and name: "read (heap w) err ''name'' \<noteq> JStr ''DocumentNotFoundError''"
    by (simp_all add: get_Returned_iff)
  from assms have al: "allocated (heap w) err" by (simp add: get_Returned_allocated)
  have ck: "\<And>xs. conflict_keys (heap w @ xs) err = conflict_keys (heap w) err"
    using al assms(2) by (rule conflict_keys_append)
  have kv: "\<not> truthy (read (heap w) err ''keyValue'') \<Longrightarrow> conflict_keys (heap w) err = []"
    by (simp add: conflict_keys_def)
  show ?thesis
  proof (cases "read (heap w) err ''name'' = JStr ''ValidationError''")
    case True
    with assms(4) nn obtain ms where "validation_messages (heap w) err = Some ms"
      by (auto simp: get_Returned_iff)
    then have vm: "\<And>xs. validation_messages (heap w @ xs) err = Some ms"
      using al by (simp add: validation_messages_append)
    show ?thesis
      using nn name al code True kv names
      by (simp add: middleware_unfold rule_ValidationError_closed [where ms = ms] vm ck
          js_or_def truthy_def)
  next
    case False
    then show ?thesis
      using nn name al code kv names
      by (simp add: middleware_unfold rule_ValidationError_skip ck js_or_def truthy_def)
  qed
qed

theorem duplicate_key_response_witness:
  "get duplicate_key (JRef 0) ''code'' = Returned (JNum 11000)
   \<and> allocated duplicate_key (read duplicate_key (JRef 0) ''keyValue'')
   \<and> get duplicate_key (JRef 0) ''name'' \<noteq> Returned (JStr ''DocumentNotFoundError'')
   \<and> get duplicate_key (JRef 0) ''name'' \<noteq> Returned (JStr ''ValidationError'')
   \<and> conflict_keys duplicate_key (JRef 0) = [''email'']
   \<and> emitted (error_middleware (JRef 0) get_foo keep_error (world_of duplicate_key)) =
       [Response (JNum 400) [(''statusCode'', JNum 400), (''message'', JStr ''Duplicate field value: email'')]]
   \<and> sublist ''email'' ''Duplicate field value: email''"
proof -
  have c: "get (heap (world_of duplicate_key)) (JRef 0) ''code'' = Returned (JNum 11000)"
    by (simp add: duplicate_key_def get_def deref_def)
  have a: "allocated (heap (world_of duplicate_key))
      (read (heap (world_of duplicate_key)) (JRef 0) ''keyValue'')"
    by (simp add: duplicate_key_def read_def get_def deref_def allocated_def)
  have n: "get (heap (world_of duplicate_key)) (JRef 0) ''name'' \<noteq>
      Returned (JStr ''DocumentNotFoundError'')"
    by (simp add: duplicate_key_def get_def deref_def)
  have v: "get (heap (world_of duplicate_key)) (JRef 0) ''name'' \<noteq>
      Returned (JStr ''ValidationError'')"
    by (simp add: duplicate_key_def get_def deref_def)
  then have v': "get (heap (world_of duplicate_key)) (JRef 0) ''name'' =
      Returned (JStr ''ValidationError'') \<longrightarrow>
      validation_messages (heap (world_of duplicate_key)) (JRef 0) \<noteq> None"
    by simp
  have k: "conflict_keys duplicate_key (JRef 0) = [''email'']"
    by (simp add: conflict_keys_def duplicate_key_def read_def get_def deref_def truthy_def
        own_enum_props_def)
  from duplicate_key_response [OF c a n v', of get_foo keep_error] k
  have "emitted (error_middleware (JRef 0) get_foo keep_error (world_of duplicate_key)) =
       [Response (JNum 400) [(''statusCode'', JNum 400), (''message'', JStr ''Duplicate field value: email'')]]"
    and "sublist ''email'' ''Duplicate field value: email''"
    by (auto simp: emitted_def)
  with c a n v k show ?thesis by simp
qed

text \<open>
  C5 as stated fails on a raw error with code 11000 and conflict key
  \<^verbatim>\<open>{email: "x@y.com"}\<close> that carries the tag \<^verbatim>\<open>DocumentNotFoundError\<close>: the not-found
  rule runs last and overwrites the result, so the status is 404 and the message names no
  field.
\<close>

theorem not_found_11000_counterexample:
  "get not_found_11000 (JRef 0) ''code'' = Returned (JNum 11000)
   \<and> conflict_keys not_found_11000 (JRef 0) = [''email'']
   \<and> emitted (error_middleware (JRef 0) get_foo keep_error (world_of not_found_11000)) =
       [Response (JNum 404) [(''statusCode'', JNum 404), (''message'', JStr ''Requested document not found'')]]
   \<and> map status (emitted (error_middleware (JRef 0) get_foo keep_error (world_of not_found_11000))) \<noteq> [JNum 400]"
  by (simp add: run_defs not_found_11000_def conflict_keys_def read_def)

section \<open>The not-found shape\<close>

text \<open>
  C6. For every raw error whose name tag is \<^verbatim>\<open>DocumentNotFoundError\<close>, the responder
  emits status 404 and the message \<^verbatim>\<open>Requested document not found\<close> (the string of the
  program, which ends without a full stop). The rule is the last of the four, so no other
  rule overwrites its result.
\<close>

theorem not_found_response:
  assumes "get (heap w) err ''name'' = Returned (JStr ''DocumentNotFoundError'')"
  shows "\<exists>w'. error_middleware err req next w = (Returned (), w')
     \<and> responses w' = responses w @
         [Response (JNum 404)
            [(''statusCode'', JNum 404), (''message'', JStr ''Requested document not found'')]]"
proof -
  from assms have nn: "\<not> nullish err" and name: "read (heap w) err ''name'' = JStr ''DocumentNotFoundError''"
    by (simp_all add: get_Returned_iff)
  from assms have al: "allocated (heap w) err" by (rule get_Returned_allocated)
  show ?thesis
    using nn name al
    by (simp add: middleware_unfold rule_ValidationError_skip js_or_def truthy_def)
qed

theorem not_found_response_witness:
  "get not_found (JRef 0) ''name'' = Returned (JStr ''DocumentNotFoundError'')
   \<and> emitted (error_middleware (JRef 0) get_foo keep_error (world_of not_found)) =
       [Response (JNum 404) [(''statusCode'', JNum 404), (''message'', JStr ''Requested document not found'')]]"
proof -
  have n: "get (heap (world_of not_found)) (JRef 0) ''name'' =
      Returned (JStr ''DocumentNotFoundError'')"
    by (simp add: not_found_def get_def deref_def)
  from not_found_response [OF n, of get_foo keep_error]
  have "emitted (error_middleware (JRef 0) get_foo keep_error (world_of not_found)) =
       [Response (JNum 404) [(''statusCode'', JNum 404), (''message'', JStr ''Requested document not found'')]]"
    by (auto simp: emitted_def)
  with n show ?thesis by simp
qed

section \<open>The response step\<close>

text \<open>
  C7, as amended. The classification completes for every incoming error (a value that is
  not \<^verbatim>\<open>undefined\<close> or \<^verbatim>\<open>null\<close>) unless its tag is \<^verbatim>\<open>ValidationError\<close> and its \<^verbatim>\<open>errors\<close>
  is not a field mapping. For every incoming error on which it completes, the
  outgoing status code is the \<^verbatim>\<open>statusCode\<close> of the classified error when that value is
  truthy and 500 otherwise; the body has exactly the two fields \<^verbatim>\<open>statusCode\<close>, equal to
  the outgoing status, and \<^verbatim>\<open>message\<close>, the \<^verbatim>\<open>message\<close> of the classified error when that
  value is truthy and \<^verbatim>\<open>Something went wrong\<close> otherwise, so the message is never empty.
  The status is an integer when the classified \<^verbatim>\<open>statusCode\<close> is an integer or falsy, and
  the message is a string when the classified \<^verbatim>\<open>message\<close> is a string or falsy. For a raw
  error that no rule recognises, the classified message is the message of the original
  error and the classified status code is its own enumerable \<^verbatim>\<open>statusCode\<close>; so an
  unrecognised error without message and without status code yields status 500 and the
  message \<^verbatim>\<open>Something went wrong\<close>.
\<close>

theorem response_step:
  "(classify err w = (Returned error, w1) \<longrightarrow>
      error_middleware err req next w =
        (Returned (),
         w1\<lparr>responses := responses w @
           [Response (js_or (read (heap w1) error ''statusCode'') (JNum 500))
              [(''statusCode'', js_or (read (heap w1) error ''statusCode'') (JNum 500)),
               (''message'', js_or (read (heap w1) error ''message'') (JStr ''Something went wrong''))]]\<rparr>)
      \<and> truthy (js_or (read (heap w1) error ''message'') (JStr ''Something went wrong''))
      \<and> (is_integer (read (heap w1) error ''statusCode'') \<or> \<not> truthy (read (heap w1) error ''statusCode'')
           \<longrightarrow> is_integer (js_or (read (heap w1) error ''statusCode'') (JNum 500)))
      \<and> (is_string (read (heap w1) error ''message'') \<or> \<not> truthy (read (heap w1) error ''message'')
           \<longrightarrow> is_string (js_or (read (heap w1) error ''message'') (JStr ''Something went wrong''))))
   \<and> (\<not> nullish err \<and> allocated (heap w) err
        \<and> (read (heap w) err ''name'' = JStr ''ValidationError'' \<longrightarrow>
               validation_messages (heap w) err \<noteq> None)
      \<longrightarrow> (\<exists>error w1. classify err w = (Returned error, w1)))
   \<and> (\<not> nullish err \<and> allocated (heap w) err \<and> \<not> recognised (heap w) err \<longrightarrow>
      (\<exists>w'. error_middleware err req next w = (Returned (), w')
         \<and> responses w' = responses w @
           [Response (js_or (lookup_prop ''statusCode'' (own_enum_props (heap w) err)) (JNum 500))
              [(''statusCode'',
                js_or (lookup_prop ''statusCode'' (own_enum_props (heap w) err)) (JNum 500)),
               (''message'', js_or (read (heap w) err ''message'') (JStr ''Something went wrong''))]]))"
proof (intro conjI impI)
  assume k: "classify err w = (Returned error, w1)"
  from classify_returns_ref [OF k] obtain a where a: "error = JRef a"
    and resp: "responses w1 = responses w" by blast
  show "error_middleware err req next w =
        (Returned (),
         w1\<lparr>responses := responses w @
           [Response (js_or (read (heap w1) error ''statusCode'') (JNum 500))
              [(''statusCode'', js_or (read (heap w1) error ''statusCode'') (JNum 500)),
               (''message'', js_or (read (heap w1) error ''message'') (JStr ''Something went wrong''))]]\<rparr>)"
    using k a resp by (simp add: error_middleware_def js_bind_def respond_ref)
  show "truthy (js_or (read (heap w1) error ''message'') (JStr ''Something went wrong''))"
    by (simp add: js_or_def truthy_def)
next
  assume "is_integer (read (heap w1) error ''statusCode'') \<or> \<not> truthy (read (heap w1) error ''statusCode'')"
  then show "is_integer (js_or (read (heap w1) error ''statusCode'') (JNum 500))"
    by (auto simp: js_or_def is_integer_def)
next
  assume "is_string (read (heap w1) error ''message'') \<or> \<not> truthy (read (heap w1) error ''message'')"
  then show "is_string (js_or (read (heap w1) error ''message'') (JStr ''Something went wrong''))"
    by (auto simp: js_or_def is_string_def)
next
  assume h: "\<not> nullish err \<and> allocated (heap w) err
        \<and> (read (heap w) err ''name'' = JStr ''ValidationError'' \<longrightarrow>
               validation_messages (heap w) err \<noteq> None)"
  then have nn: "\<not> nullish err" and al: "allocated (heap w) err" by simp_all
  show "\<exists>error w1. classify err w = (Returned error, w1)"
  proof (cases "read (heap w) err ''name'' = JStr ''ValidationError''")
    case True
    with h obtain ms where "validation_messages (heap w) err = Some ms" by auto
    then have vm: "\<And>xs. validation_messages (heap w @ xs) err = Some ms"
      using al by (simp add: validation_messages_append)
    show ?thesis
      using nn al True
      by (simp add: classify_unfold rule_ValidationError_closed [where ms = ms] vm)
  next
    case False
    then show ?thesis
      using nn al by (simp add: classify_unfold rule_ValidationError_skip)
  qed
next
  assume h: "\<not> nullish err \<and> allocated (heap w) err \<and> \<not> recognised (heap w) err"
  then have nn: "\<not> nullish err" and al: "allocated (heap w) err"
    and nr: "\<not> recognised (heap w) err" by simp_all
  show "\<exists>w'. error_middleware err req next w = (Returned (), w')
         \<and> responses w' = responses w @
           [Response (js_or (lookup_prop ''statusCode'' (own_enum_props (heap w) err)) (JNum 500))
              [(''statusCode'',
                js_or (lookup_prop ''statusCode'' (own_enum_props (heap w) err)) (JNum 500)),
               (''message'', js_or (read (heap w) err ''message'') (JStr ''Something went wrong''))]]"
    using classify_unrecognised [OF nn al nr]
    by (simp add: error_middleware_def js_bind_def respond_ref read_def get_def deref_def
        copy_obj_def)
qed

theorem response_step_witness:
  "classify (JRef 0) (world_of empty_object) =
     (Returned (JRef 1),
      (world_of empty_object)
        \<lparr>heap := empty_object @ [copy_obj empty_object (JRef 0)],
         console := [LogError error_label (JRef 0)
                       (empty_object @ [copy_obj empty_object (JRef 0)])]\<rparr>)
   \<and> \<not> nullish (JRef 0) \<and> allocated empty_object (JRef 0)
   \<and> read empty_object (JRef 0) ''name'' \<noteq> JStr ''ValidationError''
   \<and> \<not> recognised empty_object (JRef 0)
   \<and> read empty_object (JRef 0) ''message'' = JUndefined
   \<and> lookup_prop ''statusCode'' (own_enum_props empty_object (JRef 0)) = JUndefined
   \<and> emitted (error_middleware (JRef 0) get_foo keep_error (world_of empty_object)) =
       [Response (JNum 500)
          [(''statusCode'', JNum 500), (''message'', JStr ''Something went wrong'')]]"
proof -
  let ?w = "world_of empty_object"
  let ?w1 = "?w\<lparr>heap := empty_object @ [copy_obj empty_object (JRef 0)],
         console := [LogError error_label (JRef 0)
                       (empty_object @ [copy_obj empty_object (JRef 0)])]\<rparr>"
  have al: "allocated (heap ?w) (JRef 0)" and nn: "\<not> nullish (JRef 0)"
    by (simp_all add: allocated_def empty_object_def nullish_def)
  have nv: "read (heap ?w) (JRef 0) ''name'' \<noteq> JStr ''ValidationError''"
    by (simp add: read_def get_def deref_def empty_object_def)
  have nr: "\<not> recognised (heap ?w) (JRef 0)"
    by (simp add: recognised_def read_def get_def deref_def empty_object_def)
  have m: "read empty_object (JRef 0) ''message'' = JUndefined"
    and s: "lookup_prop ''statusCode'' (own_enum_props empty_object (JRef 0)) = JUndefined"
    by (simp_all add: read_def get_def deref_def own_enum_props_def empty_object_def)
  note step = response_step [of "JRef 0" ?w "JRef 1" ?w1 get_foo keep_error]
  from step nn al nv obtain error w1 where "classify (JRef 0) ?w = (Returned error, w1)"
    by blast
  with classify_unrecognised [OF nn al nr]
  have k: "classify (JRef 0) ?w = (Returned (JRef 1), ?w1)"
    by (simp add: empty_object_def)
  from step nn al nr obtain w' where
    "error_middleware (JRef 0) get_foo keep_error ?w = (Returned (), w')"
    and "responses w' = responses ?w @
           [Response (js_or (lookup_prop ''statusCode'' (own_enum_props (heap ?w) (JRef 0))) (JNum 500))
              [(''statusCode'',
                js_or (lookup_prop ''statusCode'' (own_enum_props (heap ?w) (JRef 0))) (JNum 500)),
               (''message'', js_or (read (heap ?w) (JRef 0) ''message'') (JStr ''Something went wrong''))]]"
    by blast
  with m s
  have "emitted (error_middleware (JRef 0) get_foo keep_error ?w) =
       [Response (JNum 500)
          [(''statusCode'', JNum 500), (''message'', JStr ''Something went wrong'')]]"
    by (simp add: emitted_def js_or_def truthy_def)
  with k al nn nv nr m s show ?thesis by simp
qed

text \<open>
  C7 as stated fails on the raw error \<^verbatim>\<open>{message: 42}\<close>: no rule recognises it, its message
  is present and is passed on as it is, and the \<^verbatim>\<open>message\<close> field of the body is the number
  42, not a string.
\<close>

theorem numeric_message_counterexample:
  "emitted (error_middleware (JRef 0) get_foo keep_error (world_of numeric_message)) =
       [Response (JNum 500) [(''statusCode'', JNum 500), (''message'', JNum 42)]]
   \<and> \<not> is_string (JNum 42)"
  by (simp add: run_defs numeric_message_def is_string_def)

section \<open>Unknown routes\<close>

text \<open>
  C8. For every request that no route matches, the catch-all builds an Application Error
  with status 404 and the message \<^verbatim>\<open>Can't find <url> on this server\<close> and forwards it with
  \<^verbatim>\<open>next\<close> to the error-handling middleware, which emits status 404 and that message; the
  message contains the path. Nothing falls through to the built-in handler. For the
  route \<^verbatim>\<open>/foo\<close> the message contains \<^verbatim>\<open>/foo\<close>.
\<close>

theorem unmatched_route_response:
  "\<exists>w'. unmatched_request req w = (Returned (Plain JUndefined), w')
     \<and> heap w' ! length (heap w) = AppError_obj (''Can't find '' @ url req @ '' on this server'') 404
     \<and> responses w' = responses w @
         [Response (JNum 404)
            [(''statusCode'', JNum 404),
             (''message'', JStr (''Can't find '' @ url req @ '' on this server''))]]
     \<and> sublist (url req) (''Can't find '' @ url req @ '' on this server'')
     \<and> fallthrough w' = fallthrough w \<and> unhandled w' = unhandled w"
proof -
  define m where "m = ''Can't find '' @ url req @ '' on this server''"
  define w1 where "w1 = w\<lparr>heap := heap w @ [AppError_obj m 404]\<rparr>"
  have ne: "m \<noteq> []" by (simp add: m_def)
  have "length (heap w) < length (heap w1)" and "heap w1 ! length (heap w) = AppError_obj m 404"
    by (simp_all add: w1_def)
  from error_middleware_AppError [OF this, of req "\<lambda>e. final_handler (Raised e)"]
  obtain w' where mw: "error_middleware (JRef (length (heap w))) req (\<lambda>e. final_handler (Raised e)) w1 = (Returned (), w')"
    and old: "\<forall>b<length (heap w1). heap w' ! b = heap w1 ! b"
    and resp: "responses w' = responses w1 @
         [Response (js_or (JNum 404) (JNum 500))
            [(''statusCode'', js_or (JNum 404) (JNum 500)),
             (''message'', js_or (JStr m) (JStr ''Something went wrong''))]]"
    and rest: "fallthrough w' = fallthrough w1" "unhandled w' = unhandled w1"
    by blast
  have run: "unmatched_request req w = (Returned (Plain JUndefined), w')"
    using mw
    by (simp add: unmatched_request_def catch_all_def js_bind_def new_AppError_def alloc_def
        express_next_def truthy_def m_def w1_def)
  have "heap w' ! length (heap w) = AppError_obj m 404"
    using old by (simp add: w1_def)
  moreover have "responses w' = responses w @
      [Response (JNum 404) [(''statusCode'', JNum 404), (''message'', JStr m)]]"
    using resp ne by (simp add: w1_def js_or_def truthy_def)
  moreover have "sublist (url req) m"
    unfolding m_def by (rule sublist_appendI)
  moreover have "fallthrough w' = fallthrough w" "unhandled w' = unhandled w"
    using rest by (simp_all add: w1_def)
  ultimately show ?thesis
    using run unfolding m_def by blast
qed

theorem unmatched_route_response_witness:
  "emitted (unmatched_request get_foo empty_world) =
     [Response (JNum 404)
        [(''statusCode'', JNum 404), (''message'', JStr ''Can't find /foo on this server'')]]
   \<and> sublist ''/foo'' ''Can't find /foo on this server''"
  using unmatched_route_response [of get_foo empty_world]
  by (auto simp: emitted_def get_foo_def empty_world_def)

section \<open>The original error is not changed\<close>

text \<open>
  C9. The middleware works on a shallow copy. For every raw error passed to it (an
  allocated value), whether the middleware returns or throws, every object that was
  allocated before the call is unchanged after it, and so is every field of the original
  error; and when the error is not \<^verbatim>\<open>undefined\<close> or \<^verbatim>\<open>null\<close> (a value that Express never
  routes to an error handler), exactly one entry is logged, and that entry is the original
  error, printed in a heap in which the original objects are unchanged.
\<close>

theorem original_error_untouched:
  assumes "allocated (heap w) err" and "error_middleware err req next w = (r, w')"
  shows "length (heap w) \<le> length (heap w')
     \<and> (\<forall>a<length (heap w). heap w' ! a = heap w ! a)
     \<and> (\<forall>k. get (heap w') err k = get (heap w) err k)
     \<and> (\<not> nullish err \<longrightarrow>
          (\<exists>snap. console w' = console w @ [LogError error_label err snap]
             \<and> length (heap w) \<le> length snap
             \<and> (\<forall>a<length (heap w). snap ! a = heap w ! a)))"
proof -
  obtain r0 w0 where c: "copy_and_log err w = (r0, w0)" by (cases "copy_and_log err w")
  obtain r1 w1 where k: "classify err w = (r1, w1)" by (cases "classify err w")
  have h1: "\<exists>xs. heap w1 = heap w @ xs"
    and c1: "\<not> nullish err \<longrightarrow>
      (\<exists>c. console w1 = console w @ [LogError error_label err (heap w @ [c])])"
  proof -
    show "\<exists>xs. heap w1 = heap w @ xs"
    proof (cases r0)
      case (Returned e0)
      with c k have "convert err e0 w0 = (r1, w1)" by (simp add: classify_convert js_bind_def)
      with grows_convert have "\<exists>xs. heap w1 = heap w0 @ xs" unfolding grows_def by blast
      with copy_and_log_cases [OF c] show ?thesis by auto
    next
      case (Threw x)
      with c k have "w1 = w0" by (simp add: classify_convert js_bind_def)
      with copy_and_log_cases [OF c] show ?thesis by auto
    qed
    show "\<not> nullish err \<longrightarrow>
      (\<exists>c. console w1 = console w @ [LogError error_label err (heap w @ [c])])"
    proof
      assume nn: "\<not> nullish err"
      with copy_and_log_cases [OF c] obtain cp where r0: "r0 = Returned (JRef (length (heap w)))"
        and cons: "console w0 = console w @ [LogError error_label err (heap w @ [cp])]"
        by blast
      from r0 c k have "convert err (JRef (length (heap w))) w0 = (r1, w1)"
        by (simp add: classify_convert js_bind_def)
      with grows_convert have "console w1 = console w0" unfolding grows_def by blast
      with cons show "\<exists>c. console w1 = console w @ [LogError error_label err (heap w @ [c])]"
        by auto
    qed
  qed
  have fin: "heap w' = heap w1 \<and> console w' = console w1"
  proof (cases r1)
    case (Returned e)
    with k assms(2) have "respond e w1 = (r, w')" by (simp add: error_middleware_def js_bind_def)
    then show ?thesis by (rule respond_frame)
  next
    case (Threw x)
    with k assms(2) show ?thesis by (simp add: error_middleware_def js_bind_def)
  qed
  from h1 fin obtain xs where hw: "heap w' = heap w @ xs" by auto
  have A: "length (heap w) \<le> length (heap w')" using hw by simp
  have B: "\<forall>a<length (heap w). heap w' ! a = heap w ! a" using hw by (simp add: nth_append)
  have C: "\<forall>k. get (heap w') err k = get (heap w) err k" using hw assms(1) by simp
  have D: "\<not> nullish err \<longrightarrow>
          (\<exists>snap. console w' = console w @ [LogError error_label err snap]
             \<and> length (heap w) \<le> length snap
             \<and> (\<forall>a<length (heap w). snap ! a = heap w ! a))"
  proof
    assume "\<not> nullish err"
    with c1 fin obtain cp where "console w' = console w @ [LogError error_label err (heap w @ [cp])]"
      by auto
    moreover have "length (heap w) \<le> length (heap w @ [cp])" by simp
    moreover have "\<forall>a<length (heap w). (heap w @ [cp]) ! a = heap w ! a" by (simp add: nth_append)
    ultimately show "\<exists>snap. console w' = console w @ [LogError error_label err snap]
             \<and> length (heap w) \<le> length snap
             \<and> (\<forall>a<length (heap w). snap ! a = heap w ! a)" by blast
  qed
  from A B C D show ?thesis by blast
qed

theorem original_error_untouched_witness:
  "allocated validation_error (JRef 0) \<and> \<not> nullish (JRef 0)
   \<and> take 4 (heap (snd (error_middleware (JRef 0) get_foo keep_error (world_of validation_error)))) = validation_error
   \<and> get (heap (snd (error_middleware (JRef 0) get_foo keep_error (world_of validation_error)))) (JRef 0) ''errors'' = Returned (JRef 1)
   \<and> console (snd (error_middleware (JRef 0) get_foo keep_error (world_of validation_error))) =
       [LogError error_label (JRef 0) (validation_error @ [copy_obj validation_error (JRef 0)])]
   \<and> take 4 (validation_error @ [copy_obj validation_error (JRef 0)]) = validation_error"
proof -
  let ?w = "world_of validation_error"
  let ?x = "error_middleware (JRef 0) get_foo keep_error (world_of validation_error)"
  let ?snap = "validation_error @ [copy_obj validation_error (JRef 0)]"
  have al: "allocated (heap ?w) (JRef 0)" and nn: "\<not> nullish (JRef 0)"
    by (simp_all add: allocated_def validation_error_def nullish_def)
  have len: "length validation_error = 4"
    by (simp add: validation_error_def)
  have x: "?x = (fst ?x, snd ?x)" by simp
  from original_error_untouched [OF al x] nn
  have A: "length (heap ?w) \<le> length (heap (snd ?x))"
    and B: "\<forall>a<length (heap ?w). heap (snd ?x) ! a = heap ?w ! a"
    and C: "get (heap (snd ?x)) (JRef 0) ''errors'' = get (heap ?w) (JRef 0) ''errors''"
    and D: "\<exists>snap. console (snd ?x) = console ?w @ [LogError error_label (JRef 0) snap]
             \<and> length (heap ?w) \<le> length snap
             \<and> (\<forall>a<length (heap ?w). snap ! a = heap ?w ! a)"
    by blast+
  from take_unchanged [OF A B] len have 1: "take 4 (heap (snd ?x)) = validation_error"
    by simp
  from C have 2: "get (heap (snd ?x)) (JRef 0) ''errors'' = Returned (JRef 1)"
    by (simp add: validation_error_def get_def deref_def)
  have 3: "console (snd ?x) = [LogError error_label (JRef 0) ?snap]"
    by (simp add: run_defs validation_error_def copy_obj_def read_def)
  with D have "\<forall>a<length (heap ?w). ?snap ! a = heap ?w ! a" and "length (heap ?w) \<le> length ?snap"
    by auto
  from take_unchanged [OF this(2) this(1)] len have 4: "take 4 ?snap = validation_error"
    by simp
  from al nn 1 2 3 4 show ?thesis by simp
qed

section \<open>A uniqueness conflict without payload\<close>

text \<open>
  C10, as amended. For every raw error with code 11000 whose \<^verbatim>\<open>keyValue\<close> is absent,
  \<^verbatim>\<open>undefined\<close> or another falsy value, whose name tag is not \<^verbatim>\<open>DocumentNotFoundError\<close>
  and whose \<^verbatim>\<open>errors\<close>, when the tag is \<^verbatim>\<open>ValidationError\<close>, maps the field names to
  objects with a string message, the middleware returns: the guard
  \<^verbatim>\<open>err.keyValue || {}\<close> gives an empty key set, and the responder emits status 400 with
  the message \<^verbatim>\<open>Duplicate field value: \<close> and an empty field list.
\<close>

theorem missing_keyValue_response:
  assumes "get (heap w) err ''code'' = Returned (JNum 11000)"
      and "\<not> truthy (read (heap w) err ''keyValue'')"
      and "get (heap w) err ''name'' \<noteq> Returned (JStr ''DocumentNotFoundError'')"
      and "get (heap w) err ''name'' = Returned (JStr ''ValidationError'') \<longrightarrow>
           validation_messages (heap w) err \<noteq> None"
  shows "\<exists>w'. error_middleware err req next w = (Returned (), w')
     \<and> conflict_keys (heap w) err = []
     \<and> responses w' = responses w @
         [Response (JNum 400)
            [(''statusCode'', JNum 400), (''message'', JStr ''Duplicate field value: '')]]"
proof -
  from assms have nn: "\<not> nullish err" and code: "read (heap w) err ''code'' = JNum 11000"
    and name: "read (heap w) err ''name'' \<noteq> JStr ''DocumentNotFoundError''"
    by (simp_all add: get_Returned_iff)
  from assms have al: "allocated (heap w) err" by (simp add: get_Returned_allocated)
  note kv = assms(2)
  from kv have ck: "conflict_keys (heap w) err = []" by (simp add: conflict_keys_def)
  show ?thesis
  proof (cases "read (heap w) err ''name'' = JStr ''ValidationError''")
    case True
    with assms(4) nn obtain ms where "validation_messages (heap w) err = Some ms"
      by (auto simp: get_Returned_iff)
    then have vm: "\<And>xs. validation_messages (heap w @ xs) err = Some ms"
      using al by (simp add: validation_messages_append)
    show ?thesis
      using nn name al code True kv ck
      by (simp add: middleware_unfold rule_ValidationError_closed [where ms = ms] vm
          js_or_def truthy_def)
  next
    case False
    then show ?thesis
      using nn name al code kv ck
      by (simp add: middleware_unfold rule_ValidationError_skip js_or_def truthy_def)
  qed
qed

theorem missing_keyValue_response_witness:
  "get duplicate_key_no_payload (JRef 0) ''code'' = Returned (JNum 11000)
   \<and> \<not> truthy (read duplicate_key_no_payload (JRef 0) ''keyValue'')
   \<and> get duplicate_key_no_payload (JRef 0) ''name'' \<noteq> Returned (JStr ''DocumentNotFoundError'')
   \<and> get duplicate_key_no_payload (JRef 0) ''name'' \<noteq> Returned (JStr ''ValidationError'')
   \<and> emitted (error_middleware (JRef 0) get_foo keep_error (world_of duplicate_key_no_payload)) =
       [Response (JNum 400) [(''statusCode'', JNum 400), (''message'', JStr ''Duplicate field value: '')]]"
proof -
  let ?w = "world_of duplicate_key_no_payload"
  have c: "get (heap ?w) (JRef 0) ''code'' = Returned (JNum 11000)"
    by (simp add: duplicate_key_no_payload_def get_def deref_def)
  have k: "\<not> truthy (read (heap ?w) (JRef 0) ''keyValue'')"
    by (simp add: duplicate_key_no_payload_def read_def get_def deref_def truthy_def)
  have n: "get (heap ?w) (JRef 0) ''name'' \<noteq> Returned (JStr ''DocumentNotFoundError'')"
    by (simp add: duplicate_key_no_payload_def get_def deref_def)
  have v: "get (heap ?w) (JRef 0) ''name'' \<noteq> Returned (JStr ''ValidationError'')"
    by (simp add: duplicate_key_no_payload_def get_def deref_def)
  then have v': "get (heap ?w) (JRef 0) ''name'' = Returned (JStr ''ValidationError'') \<longrightarrow>
      validation_messages (heap ?w) (JRef 0) \<noteq> None"
    by simp
  from missing_keyValue_response [OF c k n v', of get_foo keep_error]
  have "emitted (error_middleware (JRef 0) get_foo keep_error (world_of duplicate_key_no_payload)) =
       [Response (JNum 400) [(''statusCode'', JNum 400), (''message'', JStr ''Duplicate field value: '')]]"
    by (auto simp: emitted_def)
  with c k n v show ?thesis by simp
qed

text \<open>
  C10 as stated fails on a raw error with code 11000 and no \<^verbatim>\<open>keyValue\<close> that carries the
  tag \<^verbatim>\<open>DocumentNotFoundError\<close>: the middleware returns, and the not-found rule
  overwrites the result of the uniqueness-conflict rule, so the status is 404.
\<close>

theorem not_found_11000_no_payload_counterexample:
  "get not_found_11000_no_payload (JRef 0) ''code'' = Returned (JNum 11000)
   \<and> read not_found_11000_no_payload (JRef 0) ''keyValue'' = JUndefined
   \<and> emitted (error_middleware (JRef 0) get_foo keep_error (world_of not_found_11000_no_payload)) =
       [Response (JNum 404) [(''statusCode'', JNum 404), (''message'', JStr ''Requested document not found'')]]
   \<and> emitted (error_middleware (JRef 0) get_foo keep_error (world_of not_found_11000_no_payload)) \<noteq>
       [Response (JNum 400) [(''statusCode'', JNum 400), (''message'', JStr ''Duplicate field value: '')]]"
  by (simp add: run_defs not_found_11000_no_payload_def read_def)

end
